theory Spec2Isabelle
  imports Complex_Main
begin

section \<open>Tensors, Python values and errors\<close>

text \<open>
  The program is \<^verbatim>\<open>src/hearkit/baseline.py\<close>: a framing function, a spectral embedding
  module and a batched driver, all written over torch tensors.

  A tensor is modelled by its shape, its contents as nested lists (outermost dimension
  first) and the device it lives on. The shape is kept beside the contents because a
  dimension of size 0 hides the sizes below it. Floating-point numbers are idealised as
  real numbers throughout: rounding error, infinities and NaN are outside the model.
\<close>

datatype device = CPU | CUDA nat

datatype 'a nd = Leaf 'a | Node "'a nd list"

record 'a tensor =
  shape :: "nat list"
  body :: "'a nd"
  device :: device

datatype py_error =
    ValueError string
  | IndexError
  | RuntimeError

fun children :: "'a nd \<Rightarrow> 'a nd list" where
  "children (Node xs) = xs"
| "children (Leaf x) = []"

fun leaves :: "'a nd \<Rightarrow> 'a list" where
  "leaves (Leaf x) = [x]"
| "leaves (Node xs) = concat (map leaves xs)"

fun conforms :: "nat list \<Rightarrow> 'a nd \<Rightarrow> bool" where
  "conforms [] (Leaf x) = True"
| "conforms (d # ds) (Node xs) = (length xs = d \<and> list_all (conforms ds) xs)"
| "conforms [] (Node xs) = False"
| "conforms (d # ds) (Leaf x) = False"

definition wf_tensor :: "'a tensor \<Rightarrow> bool" where
  "wf_tensor t = conforms (shape t) (body t)"

definition ndim :: "'a tensor \<Rightarrow> nat" where
  "ndim t = length (shape t)"

text \<open>
  \<open>map_rows f d\<close> applies \<open>f\<close> to every innermost row of a tensor of rank \<open>d\<close>; every
  torch operation used below acts on the last dimension and treats the leading ones as
  batch dimensions. A rank-0 tensor is treated as the one-element row it broadcasts to.
\<close>

fun map_rows :: "('a list \<Rightarrow> 'b list) \<Rightarrow> nat \<Rightarrow> 'a nd \<Rightarrow> 'b nd" where
  "map_rows f (Suc (Suc d)) (Node xs) = Node (map (map_rows f (Suc d)) xs)"
| "map_rows f d t = Node (map Leaf (f (leaves t)))"

text \<open>Views of rank-1, rank-2 and rank-3 tensors as lists, and back.\<close>

definition vec :: "'a list \<Rightarrow> 'a nd" where
  "vec xs = Node (map Leaf xs)"

definition mat :: "'a list list \<Rightarrow> 'a nd" where
  "mat rows = Node (map vec rows)"

definition cube :: "'a list list list \<Rightarrow> 'a nd" where
  "cube ms = Node (map mat ms)"

definition rows_of :: "'a nd \<Rightarrow> 'a list list" where
  "rows_of t = map leaves (children t)"

section \<open>Python and torch primitives used by the source\<close>

text \<open>
  Python's \<^verbatim>\<open>round\<close> on a float rounds to the nearest integer, ties to the even one.
\<close>

definition py_round :: "real \<Rightarrow> int" where
  "py_round x =
     (let f = \<lfloor>x\<rfloor>; r = x - of_int f
      in if r < 1 / 2 then f
         else if 1 / 2 < r then f + 1
         else if even f then f else f + 1)"

text \<open>
  A slice \<^verbatim>\<open>xs[a:b]\<close>: a negative bound counts from the end, and both bounds are
  clamped to the length.
\<close>

definition slice_bound :: "int \<Rightarrow> nat \<Rightarrow> nat" where
  "slice_bound a len =
     (if a < 0 then nat (max (a + int len) 0) else nat (min a (int len)))"

definition py_slice :: "int \<Rightarrow> int \<Rightarrow> 'a list \<Rightarrow> 'a list" where
  "py_slice a b xs =
     (let lo = slice_bound a (length xs); hi = slice_bound b (length xs)
      in take (hi - lo) (drop lo xs))"

text \<open>
  \<^verbatim>\<open>F.pad(audio, (l, r))\<close> pads the last dimension with zeros; a negative amount
  crops instead, and cropping more than there is raises. A rank-0 tensor has no last
  dimension to pad.
\<close>

definition pad_row :: "int \<Rightarrow> int \<Rightarrow> real list \<Rightarrow> real list" where
  "pad_row l r xs =
     (let ys = (if 0 \<le> l then replicate (nat l) 0 @ xs else drop (nat (- l)) xs)
      in if 0 \<le> r then ys @ replicate (nat r) 0 else take (length ys - nat (- r)) ys)"

definition F_pad :: "real tensor \<Rightarrow> int \<Rightarrow> int \<Rightarrow> py_error + real tensor" where
  "F_pad t l r =
     (if shape t = [] then Inl RuntimeError
      else
        let n = int (last (shape t))
        in if n + min l 0 + min r 0 < 0 then Inl RuntimeError
           else Inr (t\<lparr>shape := butlast (shape t) @ [nat (n + l + r)],
                      body := map_rows (pad_row l r) (ndim t) (body t)\<rparr>))"

text \<open>\<^verbatim>\<open>audio[:, a:b]\<close> on a tensor of rank at least 2.\<close>

definition index_dim1 :: "int \<Rightarrow> int \<Rightarrow> 'a tensor \<Rightarrow> 'a tensor" where
  "index_dim1 a b t =
     (case shape t of
        d0 # d1 # rest \<Rightarrow>
          t\<lparr>shape := d0 # (slice_bound b d1 - slice_bound a d1) # rest,
            body := Node (map (\<lambda>row. Node (py_slice a b (children row))) (children (body t)))\<rparr>
      | _ \<Rightarrow> t)"

text \<open>
  \<^verbatim>\<open>torch.stack(frames, dim=1)\<close>: the list must not be empty and all tensors must have
  one shape, of rank at least 1; entry \<open>[i, f]\<close> of the result is entry \<open>[i]\<close> of
  tensor \<open>f\<close>.
\<close>

definition torch_stack1 :: "'a tensor list \<Rightarrow> py_error + 'a tensor" where
  "torch_stack1 ts =
     (case ts of
        [] \<Rightarrow> Inl RuntimeError
      | t # _ \<Rightarrow>
          if \<not> list_all (\<lambda>u. shape u = shape t) ts then Inl RuntimeError
          else
            (case shape t of
               [] \<Rightarrow> Inl IndexError
             | d0 # rest \<Rightarrow>
                 Inr \<lparr>shape = d0 # length ts # rest,
                      body = Node (map (\<lambda>i. Node (map (\<lambda>u. children (body u) ! i) ts)) [0..<d0]),
                      device = device t\<rparr>))"

text \<open>\<^verbatim>\<open>torch.tensor(xs)\<close> of a list of numbers: a rank-1 tensor on the CPU.\<close>

definition torch_tensor :: "'a list \<Rightarrow> 'a tensor" where
  "torch_tensor xs = \<lparr>shape = [length xs], body = vec xs, device = CPU\<rparr>"

section \<open>The Framer: \<^verbatim>\<open>frame_audio\<close>\<close>

text \<open>
  The \<^verbatim>\<open>while True\<close> loop of \<^verbatim>\<open>frame_audio\<close>, with its local variables as arguments.
  The loop may run forever, so its result is an option: \<open>None\<close> is not returning.
\<close>

partial_function (option) frame_loop ::
  "real tensor \<Rightarrow> int \<Rightarrow> real \<Rightarrow> int \<Rightarrow> int \<Rightarrow> nat \<Rightarrow> int \<Rightarrow> int \<Rightarrow>
   real tensor list \<Rightarrow> real list \<Rightarrow> (real tensor list \<times> real list) option" where
  "frame_loop audio frame_size hop_size sample_rate num_padded_samples
              frame_number frame_start frame_end frames timestamps =
     (let frames' = frames @ [index_dim1 frame_start frame_end audio];
          timestamps' = timestamps @ [of_nat frame_number * hop_size];
          frame_number' = frame_number + 1;
          frame_start' = py_round (of_int sample_rate * of_nat frame_number' * hop_size);
          frame_end' = frame_start' + frame_size
      in if \<not> frame_end' \<le> num_padded_samples then Some (frames', timestamps')
         else frame_loop audio frame_size hop_size sample_rate num_padded_samples
                frame_number' frame_start' frame_end' frames' timestamps')"

declare frame_loop.simps [code]

definition frame_audio ::
  "real tensor \<Rightarrow> int \<Rightarrow> real \<Rightarrow> int \<Rightarrow> (py_error + real tensor \<times> real tensor) option" where
  "frame_audio audio frame_size hop_size sample_rate =
     (case F_pad audio (frame_size div 2) (frame_size - frame_size div 2) of
        Inl e \<Rightarrow> Some (Inl e)
      | Inr padded \<Rightarrow>
          (case shape padded of
             d0 # num_padded_samples # rest \<Rightarrow>
               (case frame_loop padded frame_size hop_size sample_rate
                       (int num_padded_samples) 0 0 frame_size [] [] of
                  None \<Rightarrow> None
                | Some (frames, timestamps) \<Rightarrow>
                    (case torch_stack1 frames of
                       Inl e \<Rightarrow> Some (Inl e)
                     | Inr stacked \<Rightarrow> Some (Inr (stacked, torch_tensor timestamps))))
           | _ \<Rightarrow> Some (Inl IndexError)))"

section \<open>The SpectralEmbedder: \<^verbatim>\<open>RandomProjectionMelEmbedding\<close>\<close>

text \<open>
  The module's buffers have the ranks \<^verbatim>\<open>__init__\<close> gives them: the window is a vector,
  the mel filter and the projection are matrices (with their sizes kept, as for tensors).
  The mel filter comes from \<^verbatim>\<open>librosa\<close> and the projection from the random generator;
  both are taken as they are. The record's other fields are the class attributes as an
  instance sees them (an instance or a subclass may override them), \<open>training\<close> is the
  flag of \<^verbatim>\<open>torch.nn.Module\<close> and \<open>module_device\<close> is where the buffers live.
\<close>

record matrix =
  nrows :: nat
  ncols :: nat
  entries :: "real list list"

definition wf_matrix :: "matrix \<Rightarrow> bool" where
  "wf_matrix M = (length (entries M) = nrows M \<and> list_all (\<lambda>r. length r = ncols M) (entries M))"

record rpme =
  sample_rate :: int
  embedding_size :: int
  n_fft :: int
  n_mels :: int
  seed :: int
  epsilon :: real
  window :: "real list"
  mel_scale :: matrix
  projection :: matrix
  training :: bool
  module_device :: device

text \<open>The class attributes of \<^verbatim>\<open>RandomProjectionMelEmbedding\<close> itself.\<close>

definition RandomProjectionMelEmbedding_sample_rate :: int where
  "RandomProjectionMelEmbedding_sample_rate = 44100"

definition RandomProjectionMelEmbedding_epsilon :: real where
  "RandomProjectionMelEmbedding_epsilon = 1 / 10000"

definition map_tensor :: "('a \<Rightarrow> 'b) \<Rightarrow> 'a tensor \<Rightarrow> 'b tensor" where
  "map_tensor f t = \<lparr>shape = shape t, body = map_nd f (body t), device = device t\<rparr>"

text \<open>
  \<^verbatim>\<open>x * w\<close> for a vector \<open>w\<close>: the last dimension of \<open>x\<close> and the length of \<open>w\<close> must
  be equal, or one of them 1 (which is then repeated); a rank-0 \<open>x\<close> counts as length 1.
\<close>

definition mul_row :: "real list \<Rightarrow> real list \<Rightarrow> real list" where
  "mul_row w row =
     (if length row = length w then map2 (*) row w
      else if length row = 1 then map (\<lambda>v. hd row * v) w
      else map (\<lambda>v. v * hd w) row)"

definition torch_mul :: "real tensor \<Rightarrow> real list \<Rightarrow> py_error + real tensor" where
  "torch_mul x w =
     (let a = (if shape x = [] then 1 else last (shape x)); n = length w
      in if a \<noteq> n \<and> a \<noteq> 1 \<and> n \<noteq> 1 then Inl RuntimeError
         else Inr \<lparr>shape = butlast (shape x) @ [if a = 1 then n else a],
                   body = map_rows (mul_row w) (ndim x) (body x),
                   device = device x\<rparr>)"

text \<open>
  \<^verbatim>\<open>torch.fft.rfft(x)\<close>: the one-sided discrete Fourier transform of each row, without
  scaling; a row of length \<open>a\<close> gives \<open>a div 2 + 1\<close> complex values. It needs a last
  dimension, and one that is not empty.
\<close>

definition rfft_row :: "real list \<Rightarrow> complex list" where
  "rfft_row xs =
     map (\<lambda>k. \<Sum>j<length xs.
                 complex_of_real (xs ! j) * cis (- 2 * pi * real j * real k / real (length xs)))
         [0..<length xs div 2 + 1]"

definition torch_fft_rfft :: "real tensor \<Rightarrow> py_error + complex tensor" where
  "torch_fft_rfft x =
     (if shape x = [] then Inl IndexError
      else if last (shape x) = 0 then Inl RuntimeError
      else Inr \<lparr>shape = butlast (shape x) @ [last (shape x) div 2 + 1],
                body = map_rows rfft_row (ndim x) (body x),
                device = device x\<rparr>)"

definition torch_abs :: "complex tensor \<Rightarrow> real tensor" where
  "torch_abs x = map_tensor cmod x"

text \<open>\<^verbatim>\<open>x ** 2.0\<close>\<close>

definition torch_square :: "real tensor \<Rightarrow> real tensor" where
  "torch_square x = map_tensor (\<lambda>v. v\<^sup>2) x"

text \<open>\<^verbatim>\<open>M.transpose(0, 1)\<close> of a matrix.\<close>

definition transpose01 :: "matrix \<Rightarrow> matrix" where
  "transpose01 M =
     \<lparr>nrows = ncols M, ncols = nrows M,
      entries = map (\<lambda>j. map (\<lambda>r. r ! j) (entries M)) [0..<ncols M]\<rparr>"

text \<open>
  \<^verbatim>\<open>torch.matmul(x, B)\<close> for a matrix \<open>B\<close>: every row of \<open>x\<close> is multiplied by \<open>B\<close>.
  The last dimension of \<open>x\<close> must be the number of rows of \<open>B\<close>, and \<open>x\<close> must have one.
\<close>

definition matmul_row :: "matrix \<Rightarrow> real list \<Rightarrow> real list" where
  "matmul_row B row = map (\<lambda>j. \<Sum>i<nrows B. row ! i * entries B ! i ! j) [0..<ncols B]"

definition torch_matmul :: "real tensor \<Rightarrow> matrix \<Rightarrow> py_error + real tensor" where
  "torch_matmul x B =
     (if shape x = [] then Inl RuntimeError
      else if last (shape x) \<noteq> nrows B then Inl RuntimeError
      else Inr \<lparr>shape = butlast (shape x) @ [ncols B],
                body = map_rows (matmul_row B) (ndim x) (body x),
                device = device x\<rparr>)"

text \<open>\<^verbatim>\<open>x + c\<close> for a number \<open>c\<close>, and \<^verbatim>\<open>torch.log\<close>.\<close>

definition torch_add :: "real tensor \<Rightarrow> real \<Rightarrow> real tensor" where
  "torch_add x c = map_tensor (\<lambda>v. v + c) x"

definition torch_log :: "real tensor \<Rightarrow> real tensor" where
  "torch_log x = map_tensor ln x"

text \<open>
  \<^verbatim>\<open>RandomProjectionMelEmbedding.forward\<close>. The input has to be on the device of the
  buffers; the first operation raises otherwise.
\<close>

definition forward :: "rpme \<Rightarrow> real tensor \<Rightarrow> py_error + real tensor" where
  "forward self x =
     (if device x \<noteq> module_device self then Inl RuntimeError
      else
        case torch_mul x (window self) of Inl e \<Rightarrow> Inl e | Inr xw \<Rightarrow>
        (case torch_fft_rfft xw of Inl e \<Rightarrow> Inl e | Inr spectrum \<Rightarrow>
        (let power = torch_square (torch_abs spectrum)
         in case torch_matmul power (transpose01 (mel_scale self)) of Inl e \<Rightarrow> Inl e | Inr mel \<Rightarrow>
           (let logmel = torch_log (torch_add mel (epsilon self))
            in torch_matmul logmel (projection self)))))"

section \<open>The BatchedEmbeddingDriver: \<^verbatim>\<open>get_audio_embedding\<close>\<close>

text \<open>\<^verbatim>\<open>t.flatten(end_dim=1)\<close> on a tensor of rank at least 2.\<close>

definition flatten01 :: "'a tensor \<Rightarrow> 'a tensor" where
  "flatten01 t =
     (case shape t of
        d0 # d1 # rest \<Rightarrow>
          \<lparr>shape = (d0 * d1) # rest,
           body = Node (concat (map children (children (body t)))),
           device = device t\<rparr>
      | _ \<Rightarrow> t)"

text \<open>Consecutive pieces of at most \<open>n\<close> elements; the last one may be shorter.\<close>

fun chunks :: "nat \<Rightarrow> 'a list \<Rightarrow> 'a list list" where
  "chunks n xs = (if n = 0 \<or> xs = [] then [] else take n xs # chunks n (drop n xs))"

declare chunks.simps [simp del]

text \<open>
  The tensors \<^verbatim>\<open>batch[0]\<close> that iterating
  \<^verbatim>\<open>DataLoader(TensorDataset(frames), batch_size, shuffle=False, drop_last=False)\<close>
  yields, in order. With an integer batch size the rows of \<open>frames\<close> are stacked in
  consecutive groups; the constructor rejects a batch size that is not positive. With
  \<^verbatim>\<open>None\<close> batching is off and every row is yielded by itself, one rank lower.
\<close>

definition DataLoader :: "'a tensor \<Rightarrow> int option \<Rightarrow> py_error + 'a tensor list" where
  "DataLoader frames batch_size =
     (case batch_size of
        None \<Rightarrow>
          Inr (map (\<lambda>row. \<lparr>shape = tl (shape frames), body = row, device = device frames\<rparr>)
                   (children (body frames)))
      | Some b \<Rightarrow>
          if b \<le> 0 then Inl (ValueError ''batch_size should be a positive integer value'')
          else Inr (map (\<lambda>rows. \<lparr>shape = length rows # tl (shape frames), body = Node rows,
                                   device = device frames\<rparr>)
                        (chunks (nat b) (children (body frames)))))"

text \<open>
  \<^verbatim>\<open>torch.cat(ts, dim=0)\<close>: the list must not be empty, and the tensors must have a
  first dimension and agree on the others.
\<close>

definition torch_cat0 :: "'a tensor list \<Rightarrow> py_error + 'a tensor" where
  "torch_cat0 ts =
     (case ts of
        [] \<Rightarrow> Inl RuntimeError
      | t # _ \<Rightarrow>
          if \<not> list_all (\<lambda>u. shape u \<noteq> [] \<and> tl (shape u) = tl (shape t)) ts then Inl RuntimeError
          else Inr \<lparr>shape = sum_list (map (\<lambda>u. hd (shape u)) ts) # tl (shape t),
                    body = Node (concat (map (\<lambda>u. children (body u)) ts)),
                    device = device t\<rparr>)"

text \<open>\<^verbatim>\<open>t.unflatten(0, (a, b))\<close>: the first dimension must be \<open>a * b\<close>.\<close>

definition unflatten0 :: "'a tensor \<Rightarrow> nat \<Rightarrow> nat \<Rightarrow> py_error + 'a tensor" where
  "unflatten0 t a b =
     (case shape t of
        [] \<Rightarrow> Inl IndexError
      | d0 # rest \<Rightarrow>
          if a * b \<noteq> d0 then Inl RuntimeError
          else Inr \<lparr>shape = a # b # rest,
                    body = Node (map (\<lambda>i. Node (take b (drop (i * b) (children (body t))))) [0..<a]),
                    device = device t\<rparr>)"

text \<open>A list comprehension over a call that may raise stops at the first error.\<close>

fun map_raise :: "('a \<Rightarrow> 'e + 'b) \<Rightarrow> 'a list \<Rightarrow> 'e + 'b list" where
  "map_raise f [] = Inr []"
| "map_raise f (x # xs) =
     (case f x of
        Inl e \<Rightarrow> Inl e
      | Inr y \<Rightarrow> (case map_raise f xs of Inl e \<Rightarrow> Inl e | Inr ys \<Rightarrow> Inr (y # ys)))"

text \<open>
  The \<open>model\<close> argument is any Python object: an instance of
  \<^verbatim>\<open>RandomProjectionMelEmbedding\<close> (or of a subclass) with its state, or something else.
  \<^verbatim>\<open>model.to(device)\<close> moves the module in place and \<^verbatim>\<open>model.eval()\<close> clears its
  training flag.
\<close>

datatype py_object = RPME rpme | OtherObject

definition module_to :: "device \<Rightarrow> rpme \<Rightarrow> rpme" where
  "module_to d m = m\<lparr>module_device := d\<rparr>"

definition module_eval :: "rpme \<Rightarrow> rpme" where
  "module_eval m = m\<lparr>training := False\<rparr>"

text \<open>The two errors the driver raises itself, under the names the specification uses.\<close>

definition InvalidInput :: py_error where
  "InvalidInput = ValueError ''audio input tensor must be 2D with shape (batch_size, num_samples)''"

definition TypeMismatch :: py_error where
  "TypeMismatch = ValueError ''Model must be an instance of RandomProjectionMelEmbedding''"

text \<open>
  \<^verbatim>\<open>get_audio_embedding\<close>. The result is the returned pair or the exception raised,
  together with the model object as the call leaves it; \<open>None\<close> is not returning.
  Unpacking \<^verbatim>\<open>frames.shape\<close> into three names raises unless the frames have rank 3.
\<close>

definition get_audio_embedding ::
  "real tensor \<Rightarrow> py_object \<Rightarrow> real \<Rightarrow> int option \<Rightarrow>
   ((py_error + real tensor \<times> real tensor) \<times> py_object) option" where
  "get_audio_embedding audio model hop_size batch_size =
     (if ndim audio \<noteq> 2 then Some (Inl InvalidInput, model)
      else
        case model of
          OtherObject \<Rightarrow> Some (Inl TypeMismatch, model)
        | RPME m0 \<Rightarrow>
            (let m1 = module_to (device audio) m0
             in case frame_audio audio (n_fft m1) hop_size RandomProjectionMelEmbedding_sample_rate of
                  None \<Rightarrow> None
                | Some (Inl e) \<Rightarrow> Some (Inl e, RPME m1)
                | Some (Inr (frames, timestamps)) \<Rightarrow>
                    (case shape frames of
                       [audio_batches, num_frames, frame_size] \<Rightarrow>
                         (case DataLoader (flatten01 frames) batch_size of
                            Inl e \<Rightarrow> Some (Inl e, RPME m1)
                          | Inr loader \<Rightarrow>
                              (let m2 = module_eval m1
                               in case map_raise (forward m2) loader of
                                    Inl e \<Rightarrow> Some (Inl e, RPME m2)
                                  | Inr embeddings_list \<Rightarrow>
                                      (case torch_cat0 embeddings_list of
                                         Inl e \<Rightarrow> Some (Inl e, RPME m2)
                                       | Inr embeddings \<Rightarrow>
                                           (case unflatten0 embeddings audio_batches num_frames of
                                              Inl e \<Rightarrow> Some (Inl e, RPME m2)
                                            | Inr embeddings' \<Rightarrow>
                                                Some (Inr (embeddings', timestamps), RPME m2)))))
                     | _ \<Rightarrow> Some (Inl (ValueError ''wrong number of values to unpack''), RPME m1))))"


section \<open>Notions used to state the properties\<close>

text \<open>
  The start index that line 132 of the source computes for frame number \<open>k\<close>; frame 0
  starts at 0, which is also \<open>start_index sr h 0\<close>.
\<close>

definition start_index :: "int \<Rightarrow> real \<Rightarrow> nat \<Rightarrow> int" where
  "start_index sr h k = py_round (of_int sr * of_nat k * h)"

text \<open>One recording after the padding of line 117, for a frame size that is not negative.\<close>

definition padded_row :: "int \<Rightarrow> real list \<Rightarrow> real list" where
  "padded_row n row = replicate (nat (n div 2)) 0 @ row @ replicate (nat (n - n div 2)) 0"

text \<open>
  What \<^verbatim>\<open>__init__\<close> establishes about a module: a positive frame size, a window of
  that length, a mel filter of \<open>n_mels\<close> rows and \<open>n_fft div 2 + 1\<close> columns, and a
  projection of \<open>n_mels\<close> rows and \<open>embedding_size\<close> columns.
\<close>

definition wf_model :: "rpme \<Rightarrow> bool" where
  "wf_model m =
     (0 < n_fft m \<and> length (window m) = nat (n_fft m)
      \<and> wf_matrix (mel_scale m) \<and> int (nrows (mel_scale m)) = n_mels m
      \<and> ncols (mel_scale m) = nat (n_fft m) div 2 + 1
      \<and> wf_matrix (projection m) \<and> nrows (projection m) = nrows (mel_scale m)
      \<and> int (ncols (projection m)) = embedding_size m)"


text \<open>The operations of \<^verbatim>\<open>forward\<close>, in the order of the source, on a single row.\<close>

definition embed_row :: "rpme \<Rightarrow> real list \<Rightarrow> real list" where
  "embed_row m row =
     matmul_row (projection m)
       (map ln (map (\<lambda>v. v + epsilon m)
          (matmul_row (transpose01 (mel_scale m))
             (map (\<lambda>v. v\<^sup>2) (map cmod (rfft_row (mul_row (window m) row)))))))"



text \<open>A small recording batch used to instantiate the theorems: one recording of two samples.\<close>

definition w_audio :: "real tensor" where
  "w_audio = \<lparr>shape = [1, 2], body = mat [[1, 2]], device = CPU\<rparr>"

text \<open>
  A small module used to instantiate the theorems: frames of two samples, one mel band
  and one embedding dimension, in training mode as a new module is.
\<close>

definition w_model :: rpme where
  "w_model =
     \<lparr>sample_rate = 44100, embedding_size = 1, n_fft = 2, n_mels = 1, seed = 0,
      epsilon = 1 / 10000, window = [0, 1],
      mel_scale = \<lparr>nrows = 1, ncols = 2, entries = [[1, 2]]\<rparr>,
      projection = \<lparr>nrows = 1, ncols = 1, entries = [[3]]\<rparr>,
      training = True, module_device = CPU\<rparr>"

text \<open>Further inputs for instantiating the theorems: tensors of rank 1 and rank 3.\<close>

definition w_audio_1d :: "real tensor" where
  "w_audio_1d = \<lparr>shape = [2], body = vec [1, 2], device = CPU\<rparr>"

definition w_audio_3d :: "real tensor" where
  "w_audio_3d = \<lparr>shape = [1, 4, 1], body = cube [[[1], [2], [3], [4]]], device = CPU\<rparr>"

text \<open>
  One recording of three samples, and a module whose \<open>sample_rate\<close> attribute is
  overridden to 22050 (as an instance attribute or in a subclass).
\<close>

definition w_audio_3s :: "real tensor" where
  "w_audio_3s = \<lparr>shape = [1, 3], body = mat [[1, 2, 3]], device = CPU\<rparr>"

definition w_model_22k :: rpme where
  "w_model_22k = w_model\<lparr>sample_rate := 22050\<rparr>"

text \<open>A batch of one silent frame for the small module.\<close>

definition w_frames :: "real tensor" where
  "w_frames = \<lparr>shape = [1, 2], body = mat [[0, 0]], device = CPU\<rparr>"

section \<open>The embed transform as the specification words it\<close>

text \<open>
  The six steps of section 4.2 of the specification, each on one frame, written from its
  words and not from the source: the frame times the window element by element; the
  one-sided discrete Fourier transform of a real signal, \<open>n div 2 + 1\<close> complex values;
  the squared magnitude; the product with the transposed mel filter matrix; the logarithm
  after adding epsilon; the product with the projection matrix. \<open>spec_embed\<close> applies them
  to every frame of a batch.
\<close>

definition spec_window :: "real list \<Rightarrow> real list \<Rightarrow> real list" where
  "spec_window w frame = map (\<lambda>j. frame ! j * w ! j) [0..<length frame]"

definition spec_rdft :: "real list \<Rightarrow> complex list" where
  "spec_rdft x =
     map (\<lambda>k. \<Sum>j<length x.
             of_real (x ! j) * exp (- (2 * of_real pi * \<i> * of_nat j * of_nat k) / of_nat (length x)))
         [0..<length x div 2 + 1]"

definition spec_power :: "complex list \<Rightarrow> real list" where
  "spec_power X = map (\<lambda>z. (Re z)\<^sup>2 + (Im z)\<^sup>2) X"

definition spec_mel :: "matrix \<Rightarrow> real list \<Rightarrow> real list" where
  "spec_mel M p = map (\<lambda>b. \<Sum>k<ncols M. p ! k * entries M ! b ! k) [0..<nrows M]"

definition spec_log :: "real \<Rightarrow> real list \<Rightarrow> real list" where
  "spec_log eps v = map (\<lambda>x. ln (x + eps)) v"

definition spec_project :: "matrix \<Rightarrow> real list \<Rightarrow> real list" where
  "spec_project P v = map (\<lambda>e. \<Sum>b<nrows P. v ! b * entries P ! b ! e) [0..<ncols P]"

definition spec_embed :: "rpme \<Rightarrow> real list list \<Rightarrow> real list list" where
  "spec_embed m frames =
     map (\<lambda>frame. spec_project (projection m) (spec_log (epsilon m)
            (spec_mel (mel_scale m) (spec_power (spec_rdft (spec_window (window m) frame))))))
         frames"


section \<open>Basic facts about the primitives\<close>

lemma py_round_cases: "py_round x = \<lfloor>x\<rfloor> \<or> py_round x = \<lfloor>x\<rfloor> + 1"
  by (simp add: py_round_def Let_def)

lemma py_round_lower: "x - 1 / 2 \<le> real_of_int (py_round x)"
  unfolding py_round_def Let_def by (auto; linarith)

lemma py_round_upper: "real_of_int (py_round x) \<le> x + 1 / 2"
  unfolding py_round_def Let_def by (auto; linarith)

lemma py_round_of_int [simp]: "py_round (of_int i) = i"
  by (simp add: py_round_def)

lemma py_round_zero [simp]: "py_round 0 = 0"
  using py_round_of_int [of 0] by simp

lemma py_round_mono: 
  assumes "x \<le> y" shows "py_round x \<le> py_round y"
proof (cases "\<lfloor>x\<rfloor> = \<lfloor>y\<rfloor>")
  case True
  with assms show ?thesis
    unfolding py_round_def Let_def by (auto; linarith)
next
  case False
  with assms have "\<lfloor>x\<rfloor> + 1 \<le> \<lfloor>y\<rfloor>"
    using floor_mono [OF assms] by linarith
  moreover have "py_round x \<le> \<lfloor>x\<rfloor> + 1" using py_round_cases [of x] by linarith
  moreover have "\<lfloor>y\<rfloor> \<le> py_round y" using py_round_cases [of y] by linarith
  ultimately show ?thesis by linarith
qed

lemma leaves_vec [simp]: "leaves (vec xs) = xs"
  by (induction xs) (simp_all add: vec_def)

lemma children_vec [simp]: "children (vec xs) = map Leaf xs"
  by (simp add: vec_def)

lemma children_mat [simp]: "children (mat rows) = map vec rows"
  by (simp add: mat_def)

lemma children_cube [simp]: "children (cube ms) = map mat ms"
  by (simp add: cube_def)

lemma map_rows_vec [simp]: "map_rows f (Suc 0) (vec xs) = vec (f xs)"
  by (simp add: vec_def[of "f xs"]) 

lemma map_rows_mat [simp]: "map_rows f (Suc (Suc 0)) (mat rows) = mat (map f rows)"
  by (simp add: mat_def o_def) (simp add: vec_def)

lemma conforms_vec: "conforms [n] b \<longleftrightarrow> (\<exists>xs. b = vec xs \<and> length xs = n)"
proof
  assume c: "conforms [n] b"
  then obtain ys where b: "b = Node ys" by (cases b) auto
  with c have len: "length ys = n" and all: "\<forall>y\<in>set ys. conforms [] y"
    by (auto simp: list_all_iff)
  have "\<forall>y\<in>set ys. y = Leaf (hd (leaves y))"
  proof
    fix y assume "y \<in> set ys"
    with all have "conforms [] y" by blast
    then show "y = Leaf (hd (leaves y))" by (cases y) auto
  qed
  then have "ys = map Leaf (map (\<lambda>y. hd (leaves y)) ys)"
    by (simp add: map_idI)
  with b len show "\<exists>xs. b = vec xs \<and> length xs = n"
    unfolding vec_def by (metis length_map)
next
  assume "\<exists>xs. b = vec xs \<and> length xs = n"
  then show "conforms [n] b" by (auto simp: vec_def list_all_iff)
qed

lemma conforms_mat: 
  "conforms [r, c] b \<longleftrightarrow> (\<exists>rows. b = mat rows \<and> length rows = r \<and> (\<forall>x\<in>set rows. length x = c))"
proof
  assume c: "conforms [r, c] b"
  then obtain ys where b: "b = Node ys" by (cases b) auto
  with c have len: "length ys = r" and all: "\<forall>y\<in>set ys. conforms [c] y"
    by (auto simp: list_all_iff)
  have *: "\<forall>y\<in>set ys. y = vec (leaves y) \<and> length (leaves y) = c"
  proof
    fix y assume "y \<in> set ys"
    with all have "conforms [c] y" by blast
    then obtain xs where "y = vec xs" "length xs = c" unfolding conforms_vec by blast
    then show "y = vec (leaves y) \<and> length (leaves y) = c" by simp
  qed
  then have "ys = map vec (map leaves ys)"
    by (simp add: map_idI)
  with b len * show "\<exists>rows. b = mat rows \<and> length rows = r \<and> (\<forall>x\<in>set rows. length x = c)"
    unfolding mat_def by (intro exI [of _ "map leaves ys"]) auto
next
  assume "\<exists>rows. b = mat rows \<and> length rows = r \<and> (\<forall>x\<in>set rows. length x = c)"
  then show "conforms [r, c] b" by (fastforce simp: mat_def list_all_iff conforms_vec)
qed

lemma map_nd_vec [simp]: "map_nd f (vec xs) = vec (map f xs)"
  by (simp add: vec_def)

lemma map_nd_mat [simp]: "map_nd f (mat rows) = mat (map (map f) rows)"
  by (simp add: mat_def o_def)

lemma slice_bound_le: "slice_bound a len \<le> len"
  unfolding slice_bound_def by (cases "a < 0") simp_all

lemma py_slice_map: "py_slice a b (map f xs) = map f (py_slice a b xs)"
  by (simp add: py_slice_def Let_def take_map drop_map)

lemma py_slice_inside:
  assumes "0 \<le> a" "0 \<le> n" "a + n \<le> int (length xs)"
  shows "py_slice a (a + n) xs = take (nat n) (drop (nat a) xs)"
proof -
  have "slice_bound a (length xs) = nat a" using assms by (simp add: slice_bound_def)
  moreover have "slice_bound (a + n) (length xs) = nat a + nat n"
    using assms by (simp add: slice_bound_def nat_add_distrib)
  ultimately show ?thesis by (simp add: py_slice_def)
qed

lemma slice_bound_inside:
  assumes "0 \<le> a" "0 \<le> n" "a + n \<le> int len"
  shows "slice_bound (a + n) len - slice_bound a len = nat n"
  using assms by (simp add: slice_bound_def nat_add_distrib)

lemma length_pad_row:
  "0 \<le> l \<Longrightarrow> 0 \<le> r \<Longrightarrow> length (pad_row l r xs) = nat l + length xs + nat r"
  by (simp add: pad_row_def)

lemma pad_row_nonneg:
  "0 \<le> l \<Longrightarrow> 0 \<le> r \<Longrightarrow> pad_row l r xs = replicate (nat l) 0 @ xs @ replicate (nat r) 0"
  by (simp add: pad_row_def)

lemma F_pad_mat:
  assumes "0 \<le> l" "0 \<le> r"
  shows "F_pad \<lparr>shape = [R, S], body = mat rows, device = d\<rparr> l r =
         Inr \<lparr>shape = [R, nat l + S + nat r], body = mat (map (pad_row l r) rows), device = d\<rparr>"
proof -
  have "nat (int S + l + r) = nat l + S + nat r" using assms by linarith
  then show ?thesis using assms by (simp add: F_pad_def ndim_def)
qed

lemma index_dim1_mat:
  "index_dim1 a b \<lparr>shape = [R, L], body = mat rows, device = d\<rparr> =
   \<lparr>shape = [R, slice_bound b L - slice_bound a L], body = mat (map (py_slice a b) rows), device = d\<rparr>"
  by (simp add: index_dim1_def mat_def o_def py_slice_map vec_def)


section \<open>The frame loop in closed form\<close>

lemma start_index_0 [simp]: "start_index sr h 0 = 0"
  by (simp add: start_index_def)

lemma frame_loop_unfold:
  "frame_loop audio n h sr L k s e frames ts =
     (if \<not> start_index sr h (Suc k) + n \<le> L
      then Some (frames @ [index_dim1 s e audio], ts @ [of_nat k * h])
      else frame_loop audio n h sr L (Suc k) (start_index sr h (Suc k))
             (start_index sr h (Suc k) + n)
             (frames @ [index_dim1 s e audio]) (ts @ [of_nat k * h]))"
  by (subst frame_loop.simps) (simp add: Let_def start_index_def)

lemma frame_loop_returns:
  assumes "k < F"
    and "\<forall>j. k < j \<and> j < F \<longrightarrow> start_index sr h j + n \<le> L"
    and "\<not> start_index sr h F + n \<le> L"
  shows "frame_loop audio n h sr L k (start_index sr h k) (start_index sr h k + n) frames ts =
         Some (frames @ map (\<lambda>j. index_dim1 (start_index sr h j) (start_index sr h j + n) audio) [k..<F],
               ts @ map (\<lambda>j. of_nat j * h) [k..<F])"
  using assms
proof (induction "F - k" arbitrary: k frames ts)
  case 0
  then show ?case by simp
next
  case (Suc d)
  show ?case
  proof (cases "Suc k = F")
    case True
    then have "[k..<F] = [k]" by (simp add: upt_rec)
    moreover have "\<not> start_index sr h (Suc k) + n \<le> L"
      using True Suc.prems(3) by simp
    ultimately show ?thesis
      by (subst frame_loop_unfold) simp
  next
    case False
    with Suc.prems have lt: "Suc k < F" by simp
    with Suc.prems have fits: "start_index sr h (Suc k) + n \<le> L" by simp
    have d: "d = F - Suc k" using Suc.hyps(2) by simp
    have rest: "\<forall>j. Suc k < j \<and> j < F \<longrightarrow> start_index sr h j + n \<le> L"
      using Suc.prems(2) by simp
    have upt: "[k..<F] = k # [Suc k..<F]" using Suc.prems(1) by (simp add: upt_rec)
    show ?thesis
      by (subst frame_loop_unfold)
         (simp add: fits Suc.hyps(1) [OF d lt rest Suc.prems(3)] upt)
  qed
qed


lemma start_index_mono:
  assumes "0 \<le> of_int sr * h" "j \<le> k"
  shows "start_index sr h j \<le> start_index sr h k"
proof -
  have "of_nat j * (of_int sr * h) \<le> of_nat k * (of_int sr * h)"
    using assms by (intro mult_right_mono) simp_all
  then have "of_int sr * of_nat j * h \<le> of_int sr * of_nat k * h"
    by (simp add: mult.commute mult.left_commute)
  then show ?thesis unfolding start_index_def by (rule py_round_mono)
qed

lemma start_index_nonneg:
  assumes "0 \<le> of_int sr * h"
  shows "0 \<le> start_index sr h k"
  using start_index_mono [OF assms, of 0 k] by simp


lemma start_index_unbounded:
  assumes "0 < of_int sr * h"
  shows "\<exists>k. B < start_index sr h k"
proof -
  obtain k :: nat where k: "of_int B + 1 < of_nat k * (of_int sr * h)"
    using reals_Archimedean3 [OF assms] by blast
  have "of_int B + 1 / 2 < of_int sr * of_nat k * h - 1 / 2"
    using k by (simp add: mult.commute mult.left_commute)
  also have "\<dots> \<le> of_int (start_index sr h k)"
    unfolding start_index_def by (rule py_round_lower)
  finally have "B < start_index sr h k" by linarith
  then show ?thesis ..
qed

lemma frame_count_exists:
  assumes "0 < of_int sr * h"
  shows "\<exists>F. 0 < F \<and> (\<forall>k<F. 0 \<le> start_index sr h k \<and> start_index sr h k \<le> int S)
             \<and> (\<forall>k\<ge>F. int S < start_index sr h k)"
proof -
  define F where "F = (LEAST k. int S < start_index sr h k)"
  have ex: "\<exists>k. int S < start_index sr h k" using start_index_unbounded [OF assms] .
  then have F: "int S < start_index sr h F" unfolding F_def by (rule LeastI_ex)
  have nonneg: "0 \<le> of_int sr * h" using assms by simp
  have "F \<noteq> 0" using F by (cases "F = 0") simp_all
  moreover have "\<forall>k<F. 0 \<le> start_index sr h k \<and> start_index sr h k \<le> int S"
  proof (intro allI impI)
    fix k assume "k < F"
    then have "\<not> int S < start_index sr h k" unfolding F_def by (rule not_less_Least)
    then show "0 \<le> start_index sr h k \<and> start_index sr h k \<le> int S"
      using start_index_nonneg [OF nonneg, of k] by simp
  qed
  moreover have "\<forall>k\<ge>F. int S < start_index sr h k"
    using F start_index_mono [OF nonneg] by (meson less_le_trans)
  ultimately show ?thesis by blast
qed

lemma torch_stack1_uniform:
  assumes "ts \<noteq> []" "\<forall>u\<in>set ts. shape u = d0 # rest"
  shows "torch_stack1 ts =
         Inr \<lparr>shape = d0 # length ts # rest,
              body = Node (map (\<lambda>i. Node (map (\<lambda>u. children (body u) ! i) ts)) [0..<d0]),
              device = device (hd ts)\<rparr>"
proof (cases ts)
  case Nil
  with assms(1) show ?thesis by simp
next
  case (Cons t ts')
  with assms(2) have "shape t = d0 # rest" "list_all (\<lambda>u. shape u = d0 # rest) (t # ts')"
    by (simp_all add: list_all_iff)
  with Cons show ?thesis by (simp add: torch_stack1_def)
qed

lemma torch_stack1_mats:
  assumes "0 < F" "length rows = R"
  shows "torch_stack1 (map (\<lambda>k. \<lparr>shape = [R, n], body = mat (map (g k) rows), device = d\<rparr>) [0..<F]) =
         Inr \<lparr>shape = [R, F, n], body = cube (map (\<lambda>row. map (\<lambda>k. g k row) [0..<F]) rows), device = d\<rparr>"
proof -
  let ?fr = "\<lambda>k. \<lparr>shape = [R, n], body = mat (map (g k) rows), device = d\<rparr>"
  have "map (\<lambda>i. Node (map (\<lambda>u. children (body u) ! i) (map ?fr [0..<F]))) [0..<R] =
        map (\<lambda>i. mat (map (\<lambda>k. g k (rows ! i)) [0..<F])) [0..<R]"
    using assms(2) by (simp add: mat_def o_def)
  also have "\<dots> = map (\<lambda>row. mat (map (\<lambda>k. g k row) [0..<F])) (map (\<lambda>i. rows ! i) [0..<R])"
    by (simp add: o_def)
  also have "map (\<lambda>i. rows ! i) [0..<R] = rows"
    using assms(2) map_nth [of rows] by simp
  finally have body: "map (\<lambda>i. Node (map (\<lambda>u. children (body u) ! i) (map ?fr [0..<F]))) [0..<R] =
        map (\<lambda>row. mat (map (\<lambda>k. g k row) [0..<F])) rows" .
  have ne: "map ?fr [0..<F] \<noteq> []" using assms(1) by simp
  have hd: "hd (map ?fr [0..<F]) = ?fr 0" using assms(1) by (simp add: hd_map upt_rec)
  have "torch_stack1 (map ?fr [0..<F]) =
        Inr \<lparr>shape = [R, length (map ?fr [0..<F]), n],
             body = Node (map (\<lambda>i. Node (map (\<lambda>u. children (body u) ! i) (map ?fr [0..<F]))) [0..<R]),
             device = device (hd (map ?fr [0..<F]))\<rparr>"
    by (rule torch_stack1_uniform [OF ne]) simp
  then show ?thesis by (simp only: body hd) (simp add: cube_def o_def)
qed

lemma half_bounds: "0 \<le> (n::int) \<Longrightarrow> 0 \<le> n div 2 \<and> 0 \<le> n - n div 2"
  by linarith

lemma half_sum: "0 \<le> (n::int) \<Longrightarrow> nat (n div 2) + S + nat (n - n div 2) = S + nat n"
  by linarith

lemma F_pad_audio:
  assumes "0 \<le> n"
  shows "F_pad \<lparr>shape = [R, S], body = mat rows, device = d\<rparr> (n div 2) (n - n div 2) =
         Inr \<lparr>shape = [R, S + nat n], body = mat (map (padded_row n) rows), device = d\<rparr>"
proof -
  have b: "0 \<le> n div 2" "0 \<le> n - n div 2" using half_bounds [OF assms] by simp_all
  have "map (pad_row (n div 2) (n - n div 2)) rows = map (padded_row n) rows"
    by (simp add: pad_row_nonneg [OF b] padded_row_def)
  then show ?thesis
    by (simp only: F_pad_mat [OF b] half_sum [OF assms])
qed

lemma frame_audio_returns:
  assumes len: "length rows = R"
    and rows: "\<forall>row\<in>set rows. length row = S"
    and n: "0 \<le> n"
    and pos: "0 < of_int sr * h"
    and F: "0 < F" "\<forall>k<F. 0 \<le> start_index sr h k \<and> start_index sr h k \<le> int S"
           "\<forall>k\<ge>F. int S < start_index sr h k"
  shows "frame_audio \<lparr>shape = [R, S], body = mat rows, device = d\<rparr> n h sr =
         Some (Inr (\<lparr>shape = [R, F, nat n],
                     body = cube (map (\<lambda>row. map (\<lambda>k. take (nat n) (drop (nat (start_index sr h k))
                                                             (padded_row n row))) [0..<F]) rows),
                     device = d\<rparr>,
                    torch_tensor (map (\<lambda>k. of_nat k * h) [0..<F])))"
proof -
  let ?padded = "\<lparr>shape = [R, S + nat n], body = mat (map (padded_row n) rows), device = d\<rparr>"
  let ?L = "int (S + nat n)"
  let ?g = "\<lambda>k row. take (nat n) (drop (nat (start_index sr h k)) (padded_row n row))"
  have L: "?L = int S + n" using n by simp
  have fits: "\<forall>j. 0 < j \<and> j < F \<longrightarrow> start_index sr h j + n \<le> ?L"
    using F(2) L by simp
  have stop: "\<not> start_index sr h F + n \<le> ?L"
    using F(3) L by (simp add: not_le)
  have loop: "frame_loop ?padded n h sr ?L 0 0 n [] [] =
        Some (map (\<lambda>j. index_dim1 (start_index sr h j) (start_index sr h j + n) ?padded) [0..<F],
              map (\<lambda>j. of_nat j * h) [0..<F])"
    using frame_loop_returns [OF F(1) fits stop, of ?padded "[]" "[]"] by simp
  have plen: "\<forall>row\<in>set rows. int (length (padded_row n row)) = ?L"
    using rows half_sum [OF n, of S] half_bounds [OF n] by (simp add: padded_row_def)
  have frame: "index_dim1 (start_index sr h j) (start_index sr h j + n) ?padded =
               \<lparr>shape = [R, nat n], body = mat (map (?g j) rows), device = d\<rparr>"
    if "j < F" for j
  proof -
    have s: "0 \<le> start_index sr h j" "start_index sr h j + n \<le> ?L"
      using F(2) that L by simp_all
    have "map (py_slice (start_index sr h j) (start_index sr h j + n)) (map (padded_row n) rows) =
          map (\<lambda>row. take (nat n) (drop (nat (start_index sr h j)) (padded_row n row))) rows"
      using plen s n by (simp add: py_slice_inside)
    then show ?thesis
      by (simp only: index_dim1_mat slice_bound_inside [OF s(1) n s(2)])
  qed
  have "map (\<lambda>j. index_dim1 (start_index sr h j) (start_index sr h j + n) ?padded) [0..<F] =
        map (\<lambda>j. \<lparr>shape = [R, nat n], body = mat (map (?g j) rows), device = d\<rparr>) [0..<F]"
    by (rule map_cong [OF refl]) (simp add: frame)
  with loop have loop': "frame_loop ?padded n h sr ?L 0 0 n [] [] =
        Some (map (\<lambda>j. \<lparr>shape = [R, nat n], body = mat (map (?g j) rows), device = d\<rparr>) [0..<F],
              map (\<lambda>j. of_nat j * h) [0..<F])"
    by simp
  show ?thesis
    unfolding frame_audio_def F_pad_audio [OF n]
    by (simp only: sum.case tensor.select_convs list.case loop' option.case prod.case
          torch_stack1_mats [OF F(1) len])
qed


lemma rows_of_mat [simp]: "rows_of (mat rows) = rows"
  by (simp add: rows_of_def o_def map_idI)

lemma tensor_2d:
  assumes "wf_tensor audio" "shape audio = [R, S]"
  shows "audio = \<lparr>shape = [R, S], body = mat (rows_of (body audio)), device = device audio\<rparr>
         \<and> length (rows_of (body audio)) = R
         \<and> (\<forall>row\<in>set (rows_of (body audio)). length row = S)"
proof -
  from assms have "conforms [R, S] (body audio)" by (simp add: wf_tensor_def)
  then obtain rows where r: "body audio = mat rows" "length rows = R" "\<forall>x\<in>set rows. length x = S"
    unfolding conforms_mat by blast
  have "audio = \<lparr>shape = shape audio, body = body audio, device = device audio\<rparr>" by simp
  with r assms(2) show ?thesis by simp
qed


lemma wf_w_audio: "wf_tensor w_audio \<and> shape w_audio = [1, 2]"
  by (simp add: w_audio_def wf_tensor_def mat_def vec_def)


section \<open>The embedding transform and the driver in closed form\<close>

lemma map_tensor_mat [simp]:
  "map_tensor f \<lparr>shape = s, body = mat rows, device = d\<rparr> =
   \<lparr>shape = s, body = mat (map (map f) rows), device = d\<rparr>"
  by (simp add: map_tensor_def)

lemma torch_mul_mat:
  assumes "length w = n"
  shows "torch_mul \<lparr>shape = [N, n], body = mat rows, device = d\<rparr> w =
         Inr \<lparr>shape = [N, n], body = mat (map (mul_row w) rows), device = d\<rparr>"
  using assms by (simp add: torch_mul_def ndim_def)

lemma torch_fft_rfft_mat:
  assumes "0 < n"
  shows "torch_fft_rfft \<lparr>shape = [N, n], body = mat rows, device = d\<rparr> =
         Inr \<lparr>shape = [N, n div 2 + 1], body = mat (map rfft_row rows), device = d\<rparr>"
  using assms by (simp add: torch_fft_rfft_def ndim_def)

lemma torch_matmul_mat:
  assumes "nrows B = n"
  shows "torch_matmul \<lparr>shape = [N, n], body = mat rows, device = d\<rparr> B =
         Inr \<lparr>shape = [N, ncols B], body = mat (map (matmul_row B) rows), device = d\<rparr>"
  using assms by (simp add: torch_matmul_def ndim_def)

lemma forward_mat:
  assumes "wf_model m"
  shows "forward m \<lparr>shape = [N, nat (n_fft m)], body = mat rows, device = module_device m\<rparr> =
         Inr \<lparr>shape = [N, ncols (projection m)], body = mat (map (embed_row m) rows),
              device = module_device m\<rparr>"
proof -
  from assms have w: "length (window m) = nat (n_fft m)" and pos: "0 < nat (n_fft m)"
    and mel: "nrows (transpose01 (mel_scale m)) = nat (n_fft m) div 2 + 1"
    and melc: "ncols (transpose01 (mel_scale m)) = nrows (projection m)"
    by (simp_all add: wf_model_def transpose01_def)
  show ?thesis
    unfolding forward_def
    by (simp only: tensor.select_convs simp_thms if_False torch_mul_mat [OF w] sum.case
          torch_fft_rfft_mat [OF pos] torch_abs_def torch_square_def torch_add_def torch_log_def
          map_tensor_mat Let_def torch_matmul_mat [OF mel] melc torch_matmul_mat [OF refl])
       (simp add: embed_row_def [abs_def] o_def)
qed

lemma chunks_map: "chunks n (map f xs) = map (map f) (chunks n xs)"
proof (induction n xs rule: chunks.induct)
  case (1 n xs)
  show ?case
  proof (cases "n = 0 \<or> xs = []")
    case True
    then show ?thesis by (auto simp: chunks.simps)
  next
    case False
    with 1 show ?thesis
      by (subst (1 2) chunks.simps) (simp add: take_map drop_map)
  qed
qed

lemma concat_chunks: "0 < n \<Longrightarrow> concat (chunks n xs) = xs"
proof (induction n xs rule: chunks.induct)
  case (1 n xs)
  show ?case
  proof (cases "xs = []")
    case True
    then show ?thesis by (simp add: chunks.simps)
  next
    case False
    with 1 show ?thesis by (subst chunks.simps) simp
  qed
qed

lemma chunks_nonempty: "0 < n \<Longrightarrow> xs \<noteq> [] \<Longrightarrow> chunks n xs \<noteq> []"
  by (subst chunks.simps) simp

lemma chunks_empty [simp]: "chunks n [] = []"
  by (simp add: chunks.simps)

lemma set_chunks: "0 < n \<Longrightarrow> c \<in> set (chunks n xs) \<Longrightarrow> set c \<subseteq> set xs"
  using concat_chunks [of n xs] by (metis Sup_upper UN_I set_concat subsetI)

lemma map_raise_Inr:
  assumes "\<forall>x\<in>set xs. f x = Inr (g x)"
  shows "map_raise f xs = Inr (map g xs)"
  using assms by (induction xs) simp_all

lemma flatten01_cube:
  "flatten01 \<lparr>shape = [R, F, n], body = cube xsss, device = d\<rparr> =
   \<lparr>shape = [R * F, n], body = mat (concat xsss), device = d\<rparr>"
  by (simp add: flatten01_def cube_def mat_def o_def map_concat)

lemma DataLoader_mat:
  assumes "0 < b"
  shows "DataLoader \<lparr>shape = [N, n], body = mat rows, device = d\<rparr> (Some b) =
         Inr (map (\<lambda>c. \<lparr>shape = [length c, n], body = mat c, device = d\<rparr>) (chunks (nat b) rows))"
  using assms by (simp add: DataLoader_def chunks_map o_def mat_def)

lemma torch_cat0_mats:
  assumes "cs \<noteq> []"
  shows "torch_cat0 (map (\<lambda>c. \<lparr>shape = [length c, E], body = mat (g c), device = d\<rparr>) cs) =
         Inr \<lparr>shape = [sum_list (map (\<lambda>c. length c) cs), E], body = mat (concat (map g cs)), device = d\<rparr>"
proof (cases cs)
  case Nil
  with assms show ?thesis by simp
next
  case (Cons c cs')
  then show ?thesis
    by (simp add: torch_cat0_def list_all_iff o_def mat_def map_concat)
qed

lemma take_drop_concat:
  assumes "\<forall>xs\<in>set xss. length xs = F" "i < length xss"
  shows "take F (drop (i * F) (concat xss)) = xss ! i"
  using assms
proof (induction xss arbitrary: i)
  case Nil
  then show ?case by simp
next
  case (Cons xs xss)
  then show ?case by (cases i) simp_all
qed

lemma unflatten0_concat:
  assumes "length xss = R" "\<forall>xs\<in>set xss. length xs = F"
  shows "unflatten0 \<lparr>shape = [R * F, E], body = mat (concat xss), device = d\<rparr> R F =
         Inr \<lparr>shape = [R, F, E], body = cube xss, device = d\<rparr>"
proof -
  have "map (\<lambda>i. Node (take F (drop (i * F) (map vec (concat xss))))) [0..<R] =
        map (\<lambda>i. mat (xss ! i)) [0..<R]"
  proof (rule map_cong [OF refl])
    fix i assume "i \<in> set [0..<R]"
    then have "i < length xss" using assms(1) by simp
    from take_drop_concat [OF assms(2) this]
    have "map vec (take F (drop (i * F) (concat xss))) = map vec (xss ! i)" by simp
    then show "Node (take F (drop (i * F) (map vec (concat xss)))) = mat (xss ! i)"
      by (simp add: mat_def take_map drop_map)
  qed
  also have "\<dots> = map mat (map (\<lambda>i. xss ! i) [0..<R])" by (simp add: o_def)
  also have "map (\<lambda>i. xss ! i) [0..<R] = xss" using assms(1) map_nth [of xss] by simp
  finally show ?thesis by (simp add: unflatten0_def cube_def)
qed

lemma map_raise_map:
  assumes "\<forall>c\<in>set cs. f (T c) = Inr (G c)"
  shows "map_raise f (map T cs) = Inr (map G cs)"
  using assms by (induction cs) simp_all

lemma length_concat_uniform:
  assumes "\<forall>xs\<in>set xss. length xs = F"
  shows "length (concat xss) = length xss * F"
  using assms by (induction xss) simp_all

lemma wf_model_moved:
  "wf_model (module_eval (module_to d m)) = wf_model m"
  by (simp add: wf_model_def module_eval_def module_to_def)

lemma embed_row_moved:
  "embed_row (module_eval (module_to d m)) = embed_row m"
  by (rule ext) (simp add: embed_row_def module_eval_def module_to_def)

lemma class_rate_pos: "0 < h \<Longrightarrow> 0 < real_of_int RandomProjectionMelEmbedding_sample_rate * h"
  by (simp add: RandomProjectionMelEmbedding_sample_rate_def)

lemma batched_embedding:
  assumes m: "wf_model m" and dev: "module_device m = d" and b: "0 < b"
    and len: "length xsss = R" and uni: "\<forall>xs\<in>set xsss. length xs = F" and ne: "0 < R" "0 < F"
  shows "\<exists>loader embeddings_list embeddings.
           DataLoader (flatten01 \<lparr>shape = [R, F, nat (n_fft m)], body = cube xsss, device = d\<rparr>) (Some b)
             = Inr loader
         \<and> map_raise (forward m) loader = Inr embeddings_list
         \<and> torch_cat0 embeddings_list = Inr embeddings
         \<and> unflatten0 embeddings R F =
             Inr \<lparr>shape = [R, F, ncols (projection m)],
                  body = cube (map (map (embed_row m)) xsss), device = d\<rparr>"
proof -
  let ?n = "nat (n_fft m)" and ?E = "ncols (projection m)"
  let ?cs = "chunks (nat b) (concat xsss)"
  let ?loader = "map (\<lambda>c. \<lparr>shape = [length c, ?n], body = mat c, device = d\<rparr>) ?cs"
  let ?out = "map (\<lambda>c. \<lparr>shape = [length c, ?E], body = mat (map (embed_row m) c), device = d\<rparr>) ?cs"
  have nb: "0 < nat b" using b by simp
  have l: "DataLoader (flatten01 \<lparr>shape = [R, F, ?n], body = cube xsss, device = d\<rparr>) (Some b) = Inr ?loader"
    by (simp only: flatten01_cube DataLoader_mat [OF b])
  have f: "map_raise (forward m) ?loader = Inr ?out"
    by (rule map_raise_map) (simp add: forward_mat [OF m, unfolded dev])
  have lc: "length (concat xsss) = R * F"
    using length_concat_uniform [OF uni] len by simp
  then have "0 < length (concat xsss)" using ne by simp
  then have "concat xsss \<noteq> []" by (rule iffD1 [OF length_greater_0_conv])
  then have cs: "?cs \<noteq> []" by (rule chunks_nonempty [OF nb])
  have "sum_list (map (\<lambda>c. length c) ?cs) = length (concat ?cs)"
    by (simp add: length_concat)
  then have sum: "sum_list (map (\<lambda>c. length c) ?cs) = R * F"
    by (simp add: concat_chunks [OF nb] lc)
  have "concat (map (map (embed_row m)) ?cs) = map (embed_row m) (concat ?cs)"
    by (simp add: map_concat)
  then have body: "concat (map (map (embed_row m)) ?cs) = concat (map (map (embed_row m)) xsss)"
    by (simp add: concat_chunks [OF nb] map_concat)
  have c: "torch_cat0 ?out =
        Inr \<lparr>shape = [R * F, ?E], body = mat (concat (map (map (embed_row m)) xsss)), device = d\<rparr>"
    using torch_cat0_mats [OF cs, of ?E "map (embed_row m)" d] by (simp only: sum body)
  have u: "unflatten0 \<lparr>shape = [R * F, ?E], body = mat (concat (map (map (embed_row m)) xsss)), device = d\<rparr> R F =
        Inr \<lparr>shape = [R, F, ?E], body = cube (map (map (embed_row m)) xsss), device = d\<rparr>"
    by (rule unflatten0_concat) (simp_all add: len uni)
  from l f c u show ?thesis by blast
qed

lemma ndim_mat [simp]: "ndim \<lparr>shape = [R, S], body = b, device = d\<rparr> = 2"
  by (simp add: ndim_def)

lemma get_audio_embedding_after_framing:
  assumes fr: "frame_audio audio (n_fft m) h RandomProjectionMelEmbedding_sample_rate =
                 Some (Inr (\<lparr>shape = [R, F, nat (n_fft m)], body = cube xsss, device = device audio\<rparr>, ts))"
    and nd: "ndim audio = 2"
    and m: "wf_model m" and b: "0 < b"
    and len: "length xsss = R" and uni: "\<forall>xs\<in>set xsss. length xs = F" and ne: "0 < R" "0 < F"
  shows "get_audio_embedding audio (RPME m) h (Some b) =
         Some (Inr (\<lparr>shape = [R, F, ncols (projection m)],
                     body = cube (map (map (embed_row m)) xsss), device = device audio\<rparr>, ts),
               RPME (module_eval (module_to (device audio) m)))"
proof -
  let ?m1 = "module_to (device audio) m"
  let ?m2 = "module_eval ?m1"
  have n1: "n_fft ?m1 = n_fft m" by (simp add: module_to_def)
  have m2: "wf_model ?m2" using m by (simp add: wf_model_moved)
  have d2: "module_device ?m2 = device audio" by (simp add: module_eval_def module_to_def)
  have n2: "n_fft ?m2 = n_fft m" and p2: "projection ?m2 = projection m"
    by (simp_all add: module_eval_def module_to_def)
  from batched_embedding [OF m2 d2 b len uni ne]
  obtain loader embeddings_list embeddings where
    l: "DataLoader (flatten01 \<lparr>shape = [R, F, nat (n_fft m)], body = cube xsss, device = device audio\<rparr>) (Some b)
          = Inr loader"
    and f: "map_raise (forward ?m2) loader = Inr embeddings_list"
    and c: "torch_cat0 embeddings_list = Inr embeddings"
    and u: "unflatten0 embeddings R F =
             Inr \<lparr>shape = [R, F, ncols (projection m)],
                  body = cube (map (map (embed_row m)) xsss), device = device audio\<rparr>"
    unfolding n2 p2 embed_row_moved by blast
  show ?thesis
    unfolding get_audio_embedding_def
    by (simp only: nd simp_thms if_False py_object.case Let_def n1 fr option.case sum.case prod.case
          tensor.select_convs list.case l f c u)
qed



lemma get_audio_embedding_no_recordings:
  assumes fr: "frame_audio audio (n_fft m) h RandomProjectionMelEmbedding_sample_rate =
                 Some (Inr (\<lparr>shape = [0, F, n], body = cube [], device = d\<rparr>, ts))"
    and nd: "ndim audio = 2" and b: "0 < b"
  shows "get_audio_embedding audio (RPME m) h (Some b) =
         Some (Inl RuntimeError, RPME (module_eval (module_to (device audio) m)))"
proof -
  have n1: "n_fft (module_to (device audio) m) = n_fft m" by (simp add: module_to_def)
  have l: "DataLoader (flatten01 \<lparr>shape = [0, F, n], body = cube [], device = d\<rparr>) (Some b) = Inr []"
    using DataLoader_mat [OF b, of 0 n "[]" d] by (simp add: flatten01_cube)
  show ?thesis
    unfolding get_audio_embedding_def
    by (simp only: nd simp_thms if_False py_object.case Let_def n1 fr option.case sum.case prod.case
          tensor.select_convs list.case l map_raise.simps torch_cat0_def)
qed

lemma wf_w_model: "wf_model w_model"
  by (simp add: wf_model_def w_model_def wf_matrix_def)

lemma vec_inject [simp]: "vec xs = vec ys \<longleftrightarrow> xs = ys"
  by (simp add: vec_def inj_map_eq_map inj_on_def)

lemma mat_inject [simp]: "mat xs = mat ys \<longleftrightarrow> xs = ys"
  by (simp add: mat_def inj_map_eq_map inj_on_def)

lemma cube_inject [simp]: "cube xs = cube ys \<longleftrightarrow> xs = ys"
  by (simp add: cube_def inj_map_eq_map inj_on_def)


lemma length_embed_row [simp]: "length (embed_row m row) = ncols (projection m)"
  by (simp add: embed_row_def matmul_row_def)

lemma driver_2d:
  assumes wf: "wf_tensor audio" and sh: "shape audio = [R, S]" and m: "wf_model m"
    and h: "0 < h" and b: "0 < b"
  shows "\<exists>F xsss. 0 < F \<and> length xsss = R \<and> (\<forall>xs\<in>set xsss. length xs = F)
           \<and> frame_audio audio (n_fft m) h RandomProjectionMelEmbedding_sample_rate =
               Some (Inr (\<lparr>shape = [R, F, nat (n_fft m)], body = cube xsss, device = device audio\<rparr>,
                          torch_tensor (map (\<lambda>k. of_nat k * h) [0..<F])))
           \<and> get_audio_embedding audio (RPME m) h (Some b) =
               Some (if R = 0 then Inl RuntimeError
                     else Inr (\<lparr>shape = [R, F, ncols (projection m)],
                                 body = cube (map (map (embed_row m)) xsss), device = device audio\<rparr>,
                               torch_tensor (map (\<lambda>k. of_nat k * h) [0..<F])),
                     RPME (module_eval (module_to (device audio) m)))"
proof -
  let ?rows = "rows_of (body audio)"
  let ?sr = RandomProjectionMelEmbedding_sample_rate
  let ?n = "n_fft m"
  from tensor_2d [OF wf sh]
  have a: "audio = \<lparr>shape = [R, S], body = mat ?rows, device = device audio\<rparr>"
    and len: "length ?rows = R" and rows: "\<forall>row\<in>set ?rows. length row = S"
    by simp_all
  have n: "0 \<le> ?n" using m by (simp add: wf_model_def)
  have p: "0 < of_int ?sr * h" using h by (rule class_rate_pos)
  have nd: "ndim audio = 2" using sh by (simp add: ndim_def)
  from frame_count_exists [OF p, of S] obtain F where
    F: "0 < F" "\<forall>k<F. 0 \<le> start_index ?sr h k \<and> start_index ?sr h k \<le> int S"
       "\<forall>k\<ge>F. int S < start_index ?sr h k"
    by blast
  define xsss where "xsss = map (\<lambda>row. map (\<lambda>k.
       take (nat ?n) (drop (nat (start_index ?sr h k)) (padded_row ?n row))) [0..<F]) ?rows"
  let ?ts = "torch_tensor (map (\<lambda>k. of_nat k * h) [0..<F])"
  have fr: "frame_audio audio ?n h ?sr =
      Some (Inr (\<lparr>shape = [R, F, nat ?n], body = cube xsss, device = device audio\<rparr>, ?ts))"
    unfolding xsss_def by (subst a) (rule frame_audio_returns [OF len rows n p F])
  have l: "length xsss = R" and u: "\<forall>xs\<in>set xsss. length xs = F"
    by (auto simp: xsss_def len)
  have "get_audio_embedding audio (RPME m) h (Some b) =
               Some (if R = 0 then Inl RuntimeError
                     else Inr (\<lparr>shape = [R, F, ncols (projection m)],
                                 body = cube (map (map (embed_row m)) xsss), device = device audio\<rparr>, ?ts),
                     RPME (module_eval (module_to (device audio) m)))"
  proof (cases "R = 0")
    case True
    with l have "xsss = []" by simp
    with fr True show ?thesis
      using get_audio_embedding_no_recordings [OF _ nd b, of m h F "nat ?n" "device audio" ?ts]
      by simp
  next
    case False
    then have "0 < R" by simp
    from get_audio_embedding_after_framing [OF fr nd m b l u this F(1)] False
    show ?thesis by simp
  qed
  with F(1) l u fr show ?thesis by blast
qed


section \<open>Errors of the Framer, and evaluation at given inputs\<close>

lemma F_pad_error: "F_pad t l r = Inl e \<Longrightarrow> e = RuntimeError"
  by (auto simp: F_pad_def Let_def split: if_splits)

lemma torch_stack1_error: "torch_stack1 ts = Inl e \<Longrightarrow> e = RuntimeError \<or> e = IndexError"
  by (auto simp: torch_stack1_def split: list.splits if_splits)

lemma frame_audio_error:
  assumes "frame_audio audio n h sr = Some (Inl e)"
  shows "e = RuntimeError \<or> e = IndexError"
  using assms
  by (auto simp: frame_audio_def split: sum.splits list.splits option.splits prod.splits
      dest: F_pad_error torch_stack1_error)

lemma F_pad_shape: "F_pad t l r = Inr p \<Longrightarrow> length (shape p) = length (shape t)"
  by (auto simp: F_pad_def Let_def split: if_splits)

lemma frame_audio_low_rank:
  assumes "ndim audio < 2"
  shows "frame_audio audio n h sr = Some (Inl RuntimeError) \<or> frame_audio audio n h sr = Some (Inl IndexError)"
proof (cases "F_pad audio (n div 2) (n - n div 2)")
  case (Inl e)
  then show ?thesis using F_pad_error [OF Inl] by (simp add: frame_audio_def)
next
  case (Inr p)
  from F_pad_shape [OF Inr] assms have "length (shape p) < 2" by (simp add: ndim_def)
  then have "frame_audio audio n h sr = Some (Inl IndexError)"
    using Inr by (cases "shape p" rule: list.exhaust; cases "tl (shape p)")
                 (auto simp: frame_audio_def split: list.splits)
  then show ?thesis by simp
qed

lemma start_index_unit [simp]: "start_index 1 1 k = int k"
  using py_round_of_int [of "int k"] by (simp add: start_index_def)

lemma w_call:
  "\<exists>res. get_audio_embedding w_audio (RPME w_model) 1 (Some 1) =
          Some (Inr res, RPME (w_model\<lparr>training := False\<rparr>))"
proof -
  have h: "(0::real) < 1" and b: "(0::int) < 1" by simp_all
  have dev: "module_eval (module_to (device w_audio) w_model) = w_model\<lparr>training := False\<rparr>"
    by (simp add: module_eval_def module_to_def w_audio_def w_model_def)
  from driver_2d [OF conjunct1 [OF wf_w_audio] conjunct2 [OF wf_w_audio] wf_w_model h b]
  show ?thesis unfolding dev by auto
qed

lemma start_index_class_rate: "start_index 44100 (1 / 22050) k = 2 * int k"
proof -
  have "real_of_int 44100 * real k * (1 / 22050) = real_of_int (2 * int k)" by simp
  then show ?thesis unfolding start_index_def by (simp only: py_round_of_int)
qed

lemma start_index_model_rate: "start_index 22050 (1 / 22050) k = int k"
proof -
  have "real_of_int 22050 * real k * (1 / 22050) = real_of_int (int k)" by simp
  then show ?thesis unfolding start_index_def by (simp only: py_round_of_int)
qed

lemma wf_w_model_22k: "wf_model w_model_22k"
  by (simp add: wf_model_def w_model_22k_def w_model_def wf_matrix_def)


section \<open>The embed transform against its specification, and on silence\<close>

lemma mul_row_spec:
  assumes "length row = length w"
  shows "mul_row w row = spec_window w row"
  using assms by (auto simp: mul_row_def spec_window_def intro!: nth_equalityI)

lemma cis_exp_term:
  "cis (- 2 * pi * real j * real k / real n) =
   exp (- (2 * of_real pi * \<i> * of_nat j * of_nat k) / of_nat n)"
  by (simp add: cis_conv_exp algebra_simps)

lemma rfft_row_spec: "rfft_row x = spec_rdft x"
  by (simp only: rfft_row_def spec_rdft_def cis_exp_term)

lemma power_spec: "map (\<lambda>v. v\<^sup>2) (map cmod X) = spec_power X"
  by (simp add: spec_power_def cmod_power2)

lemma matmul_transpose_spec:
  assumes "wf_matrix M"
  shows "matmul_row (transpose01 M) p = spec_mel M p"
proof -
  have len: "length (entries M) = nrows M" using assms by (simp add: wf_matrix_def)
  have "(\<Sum>i<ncols M. p ! i * entries (transpose01 M) ! i ! b) =
        (\<Sum>k<ncols M. p ! k * entries M ! b ! k)" if "b < nrows M" for b
    by (rule sum.cong [OF refl]) (use that len in \<open>simp add: transpose01_def\<close>)
  then show ?thesis
    by (simp add: matmul_row_def spec_mel_def transpose01_def)
qed

lemma embed_row_spec:
  assumes "wf_model m" "length row = nat (n_fft m)"
  shows "embed_row m row =
         spec_project (projection m) (spec_log (epsilon m)
            (spec_mel (mel_scale m) (spec_power (spec_rdft (spec_window (window m) row)))))"
proof -
  from assms have w: "length row = length (window m)" and M: "wf_matrix (mel_scale m)"
    by (simp_all add: wf_model_def)
  have "matmul_row (projection m) v = spec_project (projection m) v" for v
    by (simp add: matmul_row_def spec_project_def)
  moreover have "map ln (map (\<lambda>v. v + epsilon m) v) = spec_log (epsilon m) v" for v
    by (simp add: spec_log_def)
  ultimately show ?thesis
    unfolding embed_row_def
    by (simp only: mul_row_spec [OF w] rfft_row_spec power_spec matmul_transpose_spec [OF M])
qed

lemma wf_w_frames:
  "wf_tensor w_frames \<and> shape w_frames = [1, nat (n_fft w_model)] \<and> device w_frames = module_device w_model"
  by (simp add: w_frames_def wf_tensor_def mat_def vec_def w_model_def)

lemma mul_row_zero:
  assumes "length w = n"
  shows "mul_row w (replicate n 0) = replicate n 0"
  using assms by (auto simp: mul_row_def intro!: nth_equalityI)

lemma rfft_row_zero: "rfft_row (replicate n 0) = replicate (n div 2 + 1) 0"
proof -
  have "(\<Sum>j<n. complex_of_real (replicate n 0 ! j) * cis (- 2 * pi * real j * real k / real n)) = 0"
    for k
    by (rule sum.neutral) simp
  then show ?thesis
    by (simp only: rfft_row_def length_replicate map_replicate_const [symmetric])
       (simp add: map_replicate_const)
qed

lemma matmul_row_zero:
  assumes "nrows B = k"
  shows "matmul_row B (replicate k 0) = replicate (ncols B) 0"
proof -
  have "(\<Sum>i<nrows B. replicate k 0 ! i * entries B ! i ! j) = 0" for j
    by (rule sum.neutral) (simp add: assms)
  then show ?thesis
    by (simp add: matmul_row_def map_replicate_const)
qed

lemma matmul_row_const:
  assumes "nrows B = k"
  shows "matmul_row B (replicate k c) = map (\<lambda>e. \<Sum>b<nrows B. c * entries B ! b ! e) [0..<ncols B]"
proof -
  have "(\<Sum>i<nrows B. replicate k c ! i * entries B ! i ! j) = (\<Sum>b<nrows B. c * entries B ! b ! j)"
    for j
    by (rule sum.cong [OF refl]) (simp add: assms)
  then show ?thesis by (simp add: matmul_row_def)
qed

lemma mel_reduction_zero:
  assumes "wf_model m"
  shows "matmul_row (transpose01 (mel_scale m))
           (map (\<lambda>v. v\<^sup>2) (map cmod (rfft_row (mul_row (window m) (replicate (nat (n_fft m)) 0))))) =
         replicate (nrows (mel_scale m)) 0"
proof -
  from assms have w: "length (window m) = nat (n_fft m)"
    and t: "nrows (transpose01 (mel_scale m)) = nat (n_fft m) div 2 + 1"
    and c: "ncols (transpose01 (mel_scale m)) = nrows (mel_scale m)"
    by (simp_all add: wf_model_def transpose01_def)
  show ?thesis
    by (simp only: mul_row_zero [OF w] rfft_row_zero map_replicate norm_zero zero_power2
          matmul_row_zero [OF t] c)
qed

lemma embed_row_zero:
  assumes "wf_model m"
  shows "embed_row m (replicate (nat (n_fft m)) 0) =
         map (\<lambda>e. \<Sum>b<nrows (projection m). ln (epsilon m) * entries (projection m) ! b ! e)
             [0..<ncols (projection m)]"
proof -
  from assms have p: "nrows (projection m) = nrows (mel_scale m)" by (simp add: wf_model_def)
  show ?thesis
    unfolding embed_row_def mel_reduction_zero [OF assms]
    by (simp add: matmul_row_const [OF p])
qed















text \<open>
  Claim C6. \<^verbatim>\<open>get_audio_embedding\<close> raises InvalidInput for every audio tensor whose rank is
  not 2, whatever the model, and raises TypeMismatch for every object that is not a
  \<^verbatim>\<open>RandomProjectionMelEmbedding\<close> once the audio has rank 2 (the audio is checked first,
  so an object of the wrong type with audio of the wrong rank gets InvalidInput). Both
  hold for every hop and batch size, also those for which framing would not return or
  the loader would raise: nothing is computed before the checks, and the model object
  is returned as it was.
\<close>

theorem get_audio_embedding_rejects:
  "(ndim audio \<noteq> 2 \<longrightarrow>
      get_audio_embedding audio model h bs = Some (Inl InvalidInput, model))
   \<and> (ndim audio = 2 \<longrightarrow>
      get_audio_embedding audio OtherObject h bs = Some (Inl TypeMismatch, OtherObject))
   \<and> (\<exists>e. get_audio_embedding audio OtherObject h bs = Some (Inl e, OtherObject)
          \<and> (e = InvalidInput \<or> e = TypeMismatch))"
  by (simp add: get_audio_embedding_def)

theorem get_audio_embedding_rejects_witness:
  "ndim w_audio_1d \<noteq> 2
   \<and> get_audio_embedding w_audio_1d (RPME w_model) 0 (Some 0) = Some (Inl InvalidInput, RPME w_model)
   \<and> ndim w_audio = 2
   \<and> get_audio_embedding w_audio OtherObject 0 (Some 0) = Some (Inl TypeMismatch, OtherObject)"
proof -
  have a: "ndim w_audio_1d \<noteq> 2" by (simp add: ndim_def w_audio_1d_def)
  have b: "ndim w_audio = 2" by (simp add: ndim_def w_audio_def)
  from get_audio_embedding_rejects [of w_audio_1d "RPME w_model" 0 "Some 0"]
       get_audio_embedding_rejects [of w_audio OtherObject 0 "Some 0"] a b
  show ?thesis by blast
qed


text \<open>
  Claim C5, as amended. \<^verbatim>\<open>frame_audio\<close> has no rank check of its own and never fails with
  InvalidInput: for a tensor of rank below 2 it fails with another error (from the padding
  or from reading \<^verbatim>\<open>shape[1]\<close>). The check for a rank other than 2 is in the driver:
  \<^verbatim>\<open>get_audio_embedding\<close> fails with InvalidInput for such a tensor, before it calls
  \<^verbatim>\<open>frame_audio\<close>.
\<close>

theorem rank_check_in_driver:
  "frame_audio audio n hop sr \<noteq> Some (Inl InvalidInput)
   \<and> (ndim audio < 2 \<longrightarrow>
        frame_audio audio n hop sr = Some (Inl RuntimeError)
      \<or> frame_audio audio n hop sr = Some (Inl IndexError))
   \<and> (ndim audio \<noteq> 2 \<longrightarrow>
        get_audio_embedding audio model h bs = Some (Inl InvalidInput, model))"
proof -
  have "frame_audio audio n hop sr \<noteq> Some (Inl InvalidInput)"
    using frame_audio_error [of audio n hop sr InvalidInput]
    by (auto simp: InvalidInput_def)
  moreover have "ndim audio \<noteq> 2 \<longrightarrow> get_audio_embedding audio model h bs = Some (Inl InvalidInput, model)"
    by (simp add: get_audio_embedding_def)
  ultimately show ?thesis using frame_audio_low_rank [of audio n hop sr] by blast
qed

theorem rank_check_in_driver_witness:
  "ndim w_audio_1d < 2 \<and> ndim w_audio_1d \<noteq> 2
   \<and> frame_audio w_audio_1d 2 1 1 \<noteq> Some (Inl InvalidInput)
   \<and> (frame_audio w_audio_1d 2 1 1 = Some (Inl RuntimeError)
      \<or> frame_audio w_audio_1d 2 1 1 = Some (Inl IndexError))
   \<and> get_audio_embedding w_audio_1d (RPME w_model) 1 (Some 1) = Some (Inl InvalidInput, RPME w_model)"
proof -
  have a: "ndim w_audio_1d < 2" "ndim w_audio_1d \<noteq> 2" by (simp_all add: ndim_def w_audio_1d_def)
  from rank_check_in_driver [of w_audio_1d 2 1 1 "RPME w_model" 1 "Some 1"] a
  show ?thesis by blast
qed

text \<open>
  Claim C5 as stated fails: called on a tensor of rank 3 (shape \<open>(1, 4, 1)\<close>, frame size 2,
  hop 1, sample rate 1), \<^verbatim>\<open>frame_audio\<close> pads the last dimension, slices dimension 1 and
  returns three frames instead of failing.
\<close>

theorem frame_audio_accepts_rank_3:
  "ndim w_audio_3d \<noteq> 2
   \<and> frame_audio w_audio_3d 2 1 1 =
       Some (Inr (\<lparr>shape = [1, 3, 2, 3],
                   body = Node [cube [[[0, 1, 0], [0, 2, 0]],
                                      [[0, 2, 0], [0, 3, 0]],
                                      [[0, 3, 0], [0, 4, 0]]]],
                   device = CPU\<rparr>,
                  torch_tensor [0, 1, 2]))"
proof -
  let ?padded = "\<lparr>shape = [1, 4, 3], body = cube [[[0, 1, 0], [0, 2, 0], [0, 3, 0], [0, 4, 0]]],
                  device = CPU\<rparr>"
  have nd: "ndim w_audio_3d \<noteq> 2" by (simp add: ndim_def w_audio_3d_def)
  have pad: "F_pad w_audio_3d (2 div 2) (2 - 2 div 2) = Inr ?padded"
    by (simp add: F_pad_def w_audio_3d_def ndim_def cube_def mat_def vec_def pad_row_def
        numeral_3_eq_3)
  have upt3: "[0..<3] = [0, 1, 2]" by (simp add: upt_rec numeral_3_eq_3)
  have "frame_loop ?padded 2 1 1 (int 4) 0 (start_index 1 1 0) (start_index 1 1 0 + 2) [] [] =
        Some ([] @ map (\<lambda>j. index_dim1 (start_index 1 1 j) (start_index 1 1 j + 2) ?padded) [0..<3],
              [] @ map (\<lambda>j. of_nat j * 1) [0..<3])"
    by (rule frame_loop_returns) auto
  then have loop: "frame_loop ?padded 2 1 1 (int 4) 0 0 2 [] [] =
        Some ([index_dim1 0 2 ?padded, index_dim1 1 3 ?padded, index_dim1 2 4 ?padded], [0, 1, 2])"
    by (simp add: upt3)
  have frames: "index_dim1 0 2 ?padded =
          \<lparr>shape = [1, 2, 3], body = cube [[[0, 1, 0], [0, 2, 0]]], device = CPU\<rparr>"
        "index_dim1 1 3 ?padded =
          \<lparr>shape = [1, 2, 3], body = cube [[[0, 2, 0], [0, 3, 0]]], device = CPU\<rparr>"
        "index_dim1 2 4 ?padded =
          \<lparr>shape = [1, 2, 3], body = cube [[[0, 3, 0], [0, 4, 0]]], device = CPU\<rparr>"
    by (simp_all add: index_dim1_def py_slice_def slice_bound_def cube_def mat_def)
  have stack: "torch_stack1 [index_dim1 0 2 ?padded, index_dim1 1 3 ?padded, index_dim1 2 4 ?padded] =
        Inr \<lparr>shape = [1, 3, 2, 3],
             body = Node [cube [[[0, 1, 0], [0, 2, 0]],
                                [[0, 2, 0], [0, 3, 0]],
                                [[0, 3, 0], [0, 4, 0]]]],
             device = CPU\<rparr>"
    unfolding frames by (simp add: torch_stack1_def cube_def)
  have "frame_audio w_audio_3d 2 1 1 =
       Some (Inr (\<lparr>shape = [1, 3, 2, 3],
                   body = Node [cube [[[0, 1, 0], [0, 2, 0]],
                                      [[0, 2, 0], [0, 3, 0]],
                                      [[0, 3, 0], [0, 4, 0]]]],
                   device = CPU\<rparr>,
                  torch_tensor [0, 1, 2]))"
    unfolding frame_audio_def pad
    by (simp only: sum.case tensor.select_convs list.case loop option.case prod.case stack)
  with nd show ?thesis by simp
qed


text \<open>
  Claim C8, as amended. Whenever \<^verbatim>\<open>get_audio_embedding\<close> returns or raises, the window, the
  mel filter, the projection and every other attribute of the module have the values
  they had, except for two that the call sets on purpose: the module is moved to the
  device of the audio (\<^verbatim>\<open>model.to\<close>) and its training flag is cleared (\<^verbatim>\<open>model.eval()\<close>).
  After a call that returns, the module is on the audio's device and not in training mode.
  An object that is not such a module is left unchanged.
\<close>

theorem model_state_after_call:
  assumes "get_audio_embedding audio model h bs = Some (res, model')"
  shows "(model = OtherObject \<longrightarrow> model' = OtherObject)
       \<and> (\<forall>m. model = RPME m \<longrightarrow>
            (\<exists>m'. model' = RPME m'
               \<and> m' = m\<lparr>training := training m', module_device := module_device m'\<rparr>
               \<and> (training m' = training m \<or> \<not> training m')
               \<and> (module_device m' = module_device m \<or> module_device m' = device audio)
               \<and> ((\<exists>r. res = Inr r) \<longrightarrow> \<not> training m' \<and> module_device m' = device audio)))"
proof (cases model)
  case OtherObject
  with assms show ?thesis
    by (auto simp: get_audio_embedding_def split: if_splits)
next
  case (RPME m)
  let ?m1 = "module_to (device audio) m"
  let ?m2 = "module_eval ?m1"
  have m1: "?m1 = m\<lparr>training := training ?m1, module_device := module_device ?m1\<rparr>"
           "training ?m1 = training m" "module_device ?m1 = device audio"
    by (simp_all add: module_to_def)
  have m2: "?m2 = m\<lparr>training := training ?m2, module_device := module_device ?m2\<rparr>"
           "\<not> training ?m2" "module_device ?m2 = device audio"
    by (simp_all add: module_to_def module_eval_def)
  have m0: "m = m\<lparr>training := training m, module_device := module_device m\<rparr>" by simp
  from assms RPME have cases:
    "(model' = RPME m \<and> (\<forall>r. res \<noteq> Inr r)) \<or> (model' = RPME ?m1 \<and> (\<forall>r. res \<noteq> Inr r)) \<or> model' = RPME ?m2"
    by (auto simp: get_audio_embedding_def Let_def
        split: if_splits option.splits sum.splits prod.splits list.splits)
  then show ?thesis
  proof (elim disjE conjE)
    assume "model' = RPME m" "\<forall>r. res \<noteq> Inr r"
    with RPME m0 show ?thesis by auto
  next
    assume "model' = RPME ?m1" "\<forall>r. res \<noteq> Inr r"
    with RPME m1 show ?thesis by auto
  next
    assume "model' = RPME ?m2"
    with RPME m2 show ?thesis by auto
  qed
qed

theorem model_state_after_call_witness:
  "\<exists>res m'. get_audio_embedding w_audio (RPME w_model) 1 (Some 1) = Some (Inr res, RPME m')
      \<and> m' = w_model\<lparr>training := training m', module_device := module_device m'\<rparr>
      \<and> \<not> training m' \<and> module_device m' = device w_audio"
proof -
  from w_call obtain res where
    c: "get_audio_embedding w_audio (RPME w_model) 1 (Some 1) =
          Some (Inr res, RPME (w_model\<lparr>training := False\<rparr>))" by blast
  from model_state_after_call [OF c] show ?thesis using c by auto
qed

text \<open>
  Claim C8 as stated fails: a module in training mode (as a new module is) is not in
  training mode after the call, so its state is not the one it had.
\<close>

theorem eval_mode_changes_model:
  "map_option snd (get_audio_embedding w_audio (RPME w_model) 1 (Some 1)) =
     Some (RPME (w_model\<lparr>training := False\<rparr>))
   \<and> training w_model
   \<and> RPME (w_model\<lparr>training := False\<rparr>) \<noteq> RPME w_model"
proof -
  from w_call obtain res where
    c: "get_audio_embedding w_audio (RPME w_model) 1 (Some 1) =
          Some (Inr res, RPME (w_model\<lparr>training := False\<rparr>))" by blast
  have t: "training w_model" by (simp add: w_model_def)
  then have "w_model\<lparr>training := False\<rparr> \<noteq> w_model"
    by (metis rpme.select_convs(10) rpme.surjective rpme.update_convs(10))
  with c t show ?thesis by simp
qed


text \<open>
  Claim C7 at a failing input. The module's own \<open>sample_rate\<close> is 22050 and the hop is one
  sample at that rate. Framing the three samples at the module's rate gives the four
  timestamps \<open>0, 1/22050, 2/22050, 3/22050\<close>; the driver frames at the class attribute
  44100 instead and returns the two timestamps \<open>0, 1/22050\<close>.
\<close>

theorem driver_ignores_model_sample_rate:
  "sample_rate w_model_22k = 22050
   \<and> map_option (map_sum id snd)
        (frame_audio w_audio_3s (n_fft w_model_22k) (1 / 22050) (sample_rate w_model_22k)) =
      Some (Inr (torch_tensor [0, 1 / 22050, 2 / 22050, 3 / 22050]))
   \<and> map_option (map_sum id snd \<circ> fst)
        (get_audio_embedding w_audio_3s (RPME w_model_22k) (1 / 22050) (Some 1)) =
      Some (Inr (torch_tensor [0, 1 / 22050]))"
proof -
  let ?h = "1 / 22050 :: real"
  let ?xsss = "\<lambda>sr F. map (\<lambda>row. map (\<lambda>k. take (nat 2) (drop (nat (start_index sr ?h k))
                   (padded_row 2 row))) [0..<F]) [[1, 2, 3::real]]"
  have sr: "sample_rate w_model_22k = 22050" and n: "n_fft w_model_22k = 2"
    by (simp_all add: w_model_22k_def w_model_def)
  have upt4: "[0..<4] = [0, 1, 2, 3]" and upt2: "[0..<2] = [0, 1]"
    by (simp_all add: upt_rec)
  have a: "w_audio_3s = \<lparr>shape = [1, 3], body = mat [[1, 2, 3]], device = CPU\<rparr>"
    by (simp add: w_audio_3s_def)
  have model: "frame_audio w_audio_3s 2 ?h 22050 =
      Some (Inr (\<lparr>shape = [1, 4, nat 2], body = cube (?xsss 22050 4), device = CPU\<rparr>,
                 torch_tensor (map (\<lambda>k. of_nat k * ?h) [0..<4])))"
    unfolding a by (rule frame_audio_returns) (auto simp: start_index_model_rate)
  have cls: "frame_audio w_audio_3s 2 ?h RandomProjectionMelEmbedding_sample_rate =
      Some (Inr (\<lparr>shape = [1, 2, nat 2], body = cube (?xsss 44100 2), device = CPU\<rparr>,
                 torch_tensor (map (\<lambda>k. of_nat k * ?h) [0..<2])))"
    unfolding a RandomProjectionMelEmbedding_sample_rate_def
    by (rule frame_audio_returns) (auto simp: start_index_class_rate)
  have nd: "ndim w_audio_3s = 2" and dev: "device w_audio_3s = CPU"
    by (simp_all add: ndim_def w_audio_3s_def)
  have b: "(0::int) < 1" by simp
  have "get_audio_embedding w_audio_3s (RPME w_model_22k) ?h (Some 1) =
         Some (Inr (\<lparr>shape = [1, 2, ncols (projection w_model_22k)],
                     body = cube (map (map (embed_row w_model_22k)) (?xsss 44100 2)),
                     device = device w_audio_3s\<rparr>,
                    torch_tensor (map (\<lambda>k. of_nat k * ?h) [0..<2])),
               RPME (module_eval (module_to (device w_audio_3s) w_model_22k)))"
    by (rule get_audio_embedding_after_framing [OF _ nd wf_w_model_22k b])
       (simp_all add: n dev cls)
  then have drv: "map_option (map_sum id snd \<circ> fst)
        (get_audio_embedding w_audio_3s (RPME w_model_22k) ?h (Some 1)) =
      Some (Inr (torch_tensor (map (\<lambda>k. of_nat k * ?h) [0..<2])))"
    by simp
  have fr: "map_option (map_sum id snd) (frame_audio w_audio_3s 2 ?h 22050) =
      Some (Inr (torch_tensor (map (\<lambda>k. of_nat k * ?h) [0..<4])))"
    by (simp add: model)
  show ?thesis
    unfolding sr n using fr drv by (simp add: upt4 upt2)
qed


text \<open>
  Claim C2. For a valid module and a batch of \<open>N\<close> frames of \<open>n_fft\<close> samples on the module's
  device, \<^verbatim>\<open>forward\<close> returns exactly the composition the specification describes, frame by
  frame: window, one-sided transform with \<open>n_fft div 2 + 1\<close> values, squared magnitude, mel
  reduction to \<open>n_mels\<close> values, logarithm after adding epsilon, projection to
  \<open>embedding_size\<close> values; the result is a batch of shape \<open>(N, embedding_size)\<close>. Being a
  function of the module's state and the input, it is deterministic and has no effect.
\<close>

theorem forward_is_spec_pipeline:
  assumes "wf_model m" "wf_tensor x" "shape x = [N, nat (n_fft m)]" "device x = module_device m"
  shows "forward m x =
           Inr \<lparr>shape = [N, nat (embedding_size m)],
                body = mat (spec_embed m (rows_of (body x))), device = device x\<rparr>
       \<and> length (spec_embed m (rows_of (body x))) = N
       \<and> (\<forall>frame\<in>set (rows_of (body x)).
             length (spec_window (window m) frame) = nat (n_fft m)
           \<and> length (spec_rdft (spec_window (window m) frame)) = nat (n_fft m) div 2 + 1
           \<and> length (spec_power (spec_rdft (spec_window (window m) frame))) = nat (n_fft m) div 2 + 1
           \<and> length (spec_mel (mel_scale m) (spec_power (spec_rdft (spec_window (window m) frame))))
               = nat (n_mels m)
           \<and> length (spec_project (projection m) (spec_log (epsilon m)
                 (spec_mel (mel_scale m) (spec_power (spec_rdft (spec_window (window m) frame))))))
               = nat (embedding_size m))"
proof -
  let ?rows = "rows_of (body x)"
  from tensor_2d [OF assms(2,3)]
  have a: "x = \<lparr>shape = [N, nat (n_fft m)], body = mat ?rows, device = device x\<rparr>"
    and len: "length ?rows = N" and rows: "\<forall>row\<in>set ?rows. length row = nat (n_fft m)"
    by simp_all
  have E: "ncols (projection m) = nat (embedding_size m)"
    and B: "nrows (mel_scale m) = nat (n_mels m)"
    using assms(1) by (auto simp: wf_model_def)
  have "map (embed_row m) ?rows = spec_embed m ?rows"
    unfolding spec_embed_def
    by (rule map_cong [OF refl]) (simp add: embed_row_spec [OF assms(1)] rows)
  moreover have "forward m x =
      Inr \<lparr>shape = [N, ncols (projection m)], body = mat (map (embed_row m) ?rows), device = device x\<rparr>"
    using forward_mat [OF assms(1), of N ?rows] by (subst a) (simp add: assms(4))
  ultimately have fw: "forward m x =
      Inr \<lparr>shape = [N, nat (embedding_size m)], body = mat (spec_embed m ?rows), device = device x\<rparr>"
    by (simp add: E)
  have lens: "length (spec_window (window m) frame) = nat (n_fft m)
           \<and> length (spec_rdft (spec_window (window m) frame)) = nat (n_fft m) div 2 + 1
           \<and> length (spec_power (spec_rdft (spec_window (window m) frame))) = nat (n_fft m) div 2 + 1
           \<and> length (spec_mel (mel_scale m) (spec_power (spec_rdft (spec_window (window m) frame))))
               = nat (n_mels m)
           \<and> length (spec_project (projection m) (spec_log (epsilon m)
                 (spec_mel (mel_scale m) (spec_power (spec_rdft (spec_window (window m) frame))))))
               = nat (embedding_size m)"
    if "frame \<in> set ?rows" for frame
    using rows that E B
    by (simp add: spec_window_def spec_rdft_def spec_power_def spec_mel_def spec_project_def)
  have "length (spec_embed m ?rows) = N" using len by (simp add: spec_embed_def)
  with fw lens show ?thesis by blast
qed

theorem forward_is_spec_pipeline_witness:
  "wf_model w_model \<and> wf_tensor w_frames \<and> shape w_frames = [1, nat (n_fft w_model)]
   \<and> device w_frames = module_device w_model
   \<and> forward w_model w_frames =
       Inr \<lparr>shape = [1, nat (embedding_size w_model)],
            body = mat (spec_embed w_model (rows_of (body w_frames))), device = device w_frames\<rparr>
   \<and> length (spec_embed w_model (rows_of (body w_frames))) = 1"
proof -
  have hyps: "wf_model w_model" "wf_tensor w_frames" "shape w_frames = [1, nat (n_fft w_model)]"
    "device w_frames = module_device w_model"
    using wf_w_model wf_w_frames by simp_all
  from forward_is_spec_pipeline [OF hyps] hyps show ?thesis by blast
qed


text \<open>
  Claim C9. For a valid module with the epsilon of the class, \<open>1e-4\<close>, and frames that are
  all zero, \<^verbatim>\<open>forward\<close> does not fail: the mel reduction of such a frame is zero, the
  logarithm is taken of \<open>0 + epsilon\<close>, which is positive, and gives \<open>ln (1 / 10000)\<close> in
  every band, and the embedding is that number times the column sums of the projection
  matrix: a vector of real numbers fixed by the module's state.
\<close>

theorem forward_silent_frames:
  assumes "wf_model m" "epsilon m = RandomProjectionMelEmbedding_epsilon"
  shows "forward m \<lparr>shape = [N, nat (n_fft m)],
                     body = mat (replicate N (replicate (nat (n_fft m)) 0)),
                     device = module_device m\<rparr> =
           Inr \<lparr>shape = [N, ncols (projection m)],
                body = mat (replicate N
                         (map (\<lambda>e. \<Sum>b<nrows (projection m). ln (1 / 10000) * entries (projection m) ! b ! e)
                              [0..<ncols (projection m)])),
                device = module_device m\<rparr>
       \<and> matmul_row (transpose01 (mel_scale m))
           (map (\<lambda>v. v\<^sup>2) (map cmod (rfft_row (mul_row (window m) (replicate (nat (n_fft m)) 0))))) =
         replicate (nrows (mel_scale m)) 0
       \<and> map ln (map (\<lambda>v. v + epsilon m) (replicate (nrows (mel_scale m)) 0)) =
         replicate (nrows (mel_scale m)) (ln (1 / 10000))
       \<and> 0 < 0 + epsilon m"
proof -
  have eps: "epsilon m = 1 / 10000"
    using assms(2) by (simp add: RandomProjectionMelEmbedding_epsilon_def)
  have "forward m \<lparr>shape = [N, nat (n_fft m)],
                     body = mat (replicate N (replicate (nat (n_fft m)) 0)),
                     device = module_device m\<rparr> =
        Inr \<lparr>shape = [N, ncols (projection m)],
             body = mat (map (embed_row m) (replicate N (replicate (nat (n_fft m)) 0))),
             device = module_device m\<rparr>"
    by (rule forward_mat [OF assms(1)])
  then show ?thesis
    using mel_reduction_zero [OF assms(1)]
    by (simp add: embed_row_zero [OF assms(1)] eps)
qed

theorem forward_silent_frames_witness:
  "wf_model w_model \<and> epsilon w_model = RandomProjectionMelEmbedding_epsilon
   \<and> forward w_model \<lparr>shape = [1, nat (n_fft w_model)],
                     body = mat (replicate 1 (replicate (nat (n_fft w_model)) 0)),
                     device = module_device w_model\<rparr> =
           Inr \<lparr>shape = [1, ncols (projection w_model)],
                body = mat (replicate 1
                         (map (\<lambda>e. \<Sum>b<nrows (projection w_model).
                                   ln (1 / 10000) * entries (projection w_model) ! b ! e)
                              [0..<ncols (projection w_model)])),
                device = module_device w_model\<rparr>"
proof -
  have hyps: "wf_model w_model" "epsilon w_model = RandomProjectionMelEmbedding_epsilon"
    using wf_w_model by (simp_all add: w_model_def RandomProjectionMelEmbedding_epsilon_def)
  from forward_silent_frames [OF hyps, of 1] hyps show ?thesis by blast
qed

end
